theory Spec2Isabelle
  imports Main
begin

section \<open>Python values and exceptions used by app.py\<close>

text \<open>
  The program is one Python module, \<^verbatim>\<open>app/app.py\<close>: a request handler class
  \<^verbatim>\<open>HealthHandler\<close> with the methods \<^verbatim>\<open>do_GET\<close> and \<^verbatim>\<open>log_message\<close>, and a
  \<^verbatim>\<open>__main__\<close> block that reads the port from the environment, creates the server and
  serves forever. Exceptions are values of \<open>exn\<close>; a computation that may raise returns
  \<open>exn + 'a\<close>, with \<open>Inl\<close> for the exception.
\<close>

datatype exn = ValueError | OverflowError | OSError | ModuleNotFoundError string

text \<open>
  \<^verbatim>\<open>os.environ.get("PORT", 8080)\<close> returns a \<^verbatim>\<open>str\<close> when the variable is set and the
  \<^verbatim>\<open>int\<close> default otherwise, so the argument of \<^verbatim>\<open>int(...)\<close> has one of two types.
\<close>

datatype pyval = PyInt int | PyStr string

type_synonym environ = "string \<rightharpoonup> string"

definition environ_get :: "environ \<Rightarrow> string \<Rightarrow> pyval \<Rightarrow> pyval" where
  "environ_get env k d = (case env k of None \<Rightarrow> d | Some s \<Rightarrow> PyStr s)"

subsection \<open>Decimal text of an integer: \<^verbatim>\<open>str(int)\<close> and the f-string\<close>

definition digit_char :: "nat \<Rightarrow> char" where
  "digit_char n = ''0123456789'' ! n"

function str_nat :: "nat \<Rightarrow> string" where
  "str_nat n = (if n < 10 then [digit_char n] else str_nat (n div 10) @ [digit_char (n mod 10)])"
  by pat_completeness auto
termination
  by (relation "measure id") auto

declare str_nat.simps [simp del]

definition str_int :: "int \<Rightarrow> string" where
  "str_int i = (if i < 0 then CHR ''-'' # str_nat (nat (- i)) else str_nat (nat i))"

subsection \<open>\<^verbatim>\<open>int(str)\<close>\<close>

text \<open>
  \<^verbatim>\<open>int(s)\<close> on a string, base 10: surrounding whitespace is dropped, one sign is
  allowed, then comes a non-empty run of decimal digits in which single underscores may
  stand between two digits. Anything else raises \<^verbatim>\<open>ValueError\<close>, and so does a run of
  more than 4300 digits (the interpreter's default limit,
  \<^verbatim>\<open>sys.int_info.default_max_str_digits\<close>; underscores are not counted, leading zeros
  are). Characters are the code points below 256. The whitespace that \<^verbatim>\<open>int\<close> drops is
  0x09-0x0D, 0x20, 0x85 and 0xA0 (\<open>py_isspace\<close>); the whitespace of \<^verbatim>\<open>str.split\<close> has
  0x1C-0x1F as well (\<open>str_isspace\<close>). The decimal digits are \<^verbatim>\<open>0\<close>-\<^verbatim>\<open>9\<close>.
\<close>

definition py_isspace :: "char \<Rightarrow> bool" where
  "py_isspace c =
     (let n = (of_char c :: nat)
      in (9 \<le> n \<and> n \<le> 13) \<or> n = 32 \<or> n = 133 \<or> n = 160)"

definition str_isspace :: "char \<Rightarrow> bool" where
  "str_isspace c =
     (let n = (of_char c :: nat)
      in (9 \<le> n \<and> n \<le> 13) \<or> (28 \<le> n \<and> n \<le> 32) \<or> n = 133 \<or> n = 160)"

definition is_digit :: "char \<Rightarrow> bool" where
  "is_digit c = (48 \<le> (of_char c :: nat) \<and> (of_char c :: nat) \<le> 57)"

definition digit_val :: "char \<Rightarrow> nat" where
  "digit_val c = of_char c - 48"

definition strip :: "string \<Rightarrow> string" where
  "strip s = rev (dropWhile py_isspace (rev (dropWhile py_isspace s)))"

fun digits_value :: "nat \<Rightarrow> string \<Rightarrow> nat option" where
  "digits_value acc [] = Some acc"
| "digits_value acc (c # cs) =
     (if is_digit c then digits_value (10 * acc + digit_val c) cs
      else if c = CHR ''_'' then
        (case cs of
           [] \<Rightarrow> None
         | d # ds \<Rightarrow> if is_digit d then digits_value (10 * acc + digit_val d) ds else None)
      else None)"

definition max_str_digits :: nat where
  "max_str_digits = 4300"

definition unsigned_of_str :: "string \<Rightarrow> nat option" where
  "unsigned_of_str u =
     (case u of
        [] \<Rightarrow> None
      | c # cs \<Rightarrow>
          if is_digit c then
            (case digits_value (digit_val c) cs of
               None \<Rightarrow> None
             | Some n \<Rightarrow> if max_str_digits < length (filter is_digit u) then None else Some n)
          else None)"

definition int_of_str :: "string \<Rightarrow> exn + int" where
  "int_of_str s =
     (case strip s of
        [] \<Rightarrow> Inl ValueError
      | c # cs \<Rightarrow>
          if c = CHR ''-'' then
            (case unsigned_of_str cs of None \<Rightarrow> Inl ValueError | Some n \<Rightarrow> Inr (- int n))
          else if c = CHR ''+'' then
            (case unsigned_of_str cs of None \<Rightarrow> Inl ValueError | Some n \<Rightarrow> Inr (int n))
          else
            (case unsigned_of_str (c # cs) of None \<Rightarrow> Inl ValueError | Some n \<Rightarrow> Inr (int n)))"

fun py_int :: "pyval \<Rightarrow> exn + int" where
  "py_int (PyInt i) = Inr i"
| "py_int (PyStr s) = int_of_str s"

section \<open>\<^verbatim>\<open>json.dumps\<close> and \<^verbatim>\<open>str.encode\<close>\<close>

text \<open>
  JSON values without floating point. A \<^verbatim>\<open>dict\<close> keeps insertion order, so an object is
  an association list. \<open>json_dumps\<close> is \<^verbatim>\<open>json.dumps\<close> with its defaults: separators
  \<^verbatim>\<open>", "\<close> and \<^verbatim>\<open>": "\<close>, and \<^verbatim>\<open>ensure_ascii=True\<close>, which leaves the characters from space
  to \<^verbatim>\<open>~\<close> other than the quote and the backslash as they are and escapes the rest.
\<close>

datatype json = JNull | JBool bool | JInt int | JString string
  | JArray "json list" | JObject "(string \<times> json) list"

definition hex_digit :: "nat \<Rightarrow> char" where
  "hex_digit n = ''0123456789abcdef'' ! n"

definition escape_char :: "char \<Rightarrow> string" where
  "escape_char c =
     (if c = CHR 0x22 then [CHR 0x5C, CHR 0x22]
      else if c = CHR 0x5C then [CHR 0x5C, CHR 0x5C]
      else if c = CHR 0x0A then [CHR 0x5C, CHR ''n'']
      else if c = CHR 0x0D then [CHR 0x5C, CHR ''r'']
      else if c = CHR 0x09 then [CHR 0x5C, CHR ''t'']
      else if c = CHR 0x0C then [CHR 0x5C, CHR ''f'']
      else if c = CHR 0x08 then [CHR 0x5C, CHR ''b'']
      else if (of_char c :: nat) < 0x20 \<or> 0x7E < (of_char c :: nat)
        then [CHR 0x5C, CHR ''u'', CHR ''0'', CHR ''0'',
              hex_digit (of_char c div 16), hex_digit (of_char c mod 16)]
      else [c])"

definition encode_basestring_ascii :: "string \<Rightarrow> string" where
  "encode_basestring_ascii s = [CHR 0x22] @ concat (map escape_char s) @ [CHR 0x22]"

fun join_str :: "string \<Rightarrow> string list \<Rightarrow> string" where
  "join_str sep [] = []"
| "join_str sep [x] = x"
| "join_str sep (x # y # ys) = x @ sep @ join_str sep (y # ys)"

fun json_dumps :: "json \<Rightarrow> string" where
  "json_dumps JNull = ''null''"
| "json_dumps (JBool b) = (if b then ''true'' else ''false'')"
| "json_dumps (JInt i) = str_int i"
| "json_dumps (JString s) = encode_basestring_ascii s"
| "json_dumps (JArray xs) = ''['' @ join_str '', '' (map json_dumps xs) @ '']''"
| "json_dumps (JObject kvs) =
     ''{'' @ join_str '', ''
        (map (\<lambda>kv. encode_basestring_ascii (fst kv) @ '': '' @ json_dumps (snd kv)) kvs) @ ''}''"

text \<open>
  \<^verbatim>\<open>str.encode()\<close> is UTF-8: a code point below 128 is one byte, one from 128 to 255 is
  two bytes. Bytes are written as characters.
\<close>

definition encode_char :: "char \<Rightarrow> string" where
  "encode_char c =
     (let n = (of_char c :: nat)
      in if n < 128 then [c] else [char_of (192 + n div 64), char_of (128 + n mod 64)])"

definition encode :: "string \<Rightarrow> string" where
  "encode s = concat (map encode_char s)"

subsection \<open>Reading JSON text back\<close>

text \<open>
  The reader of the response parses the body as JSON. \<open>json_loads\<close> is a recursive-descent
  parser for the values above (strings with their escapes, integers, the three literals,
  arrays and objects, with whitespace between tokens); a number with a fraction or an
  exponent, and a \<^verbatim>\<open>\u\<close> escape beyond code point 255, are outside the model and give
  \<open>None\<close>. The first argument of the mutually recursive functions bounds their depth.
\<close>

definition json_ws :: "char \<Rightarrow> bool" where
  "json_ws c = (c = CHR '' '' \<or> c = CHR 0x09 \<or> c = CHR 0x0A \<or> c = CHR 0x0D)"

definition skip_ws :: "string \<Rightarrow> string" where
  "skip_ws s = dropWhile json_ws s"

definition hex_val :: "char \<Rightarrow> nat option" where
  "hex_val c =
     (let n = (of_char c :: nat)
      in if 48 \<le> n \<and> n \<le> 57 then Some (n - 48)
         else if 97 \<le> n \<and> n \<le> 102 then Some (n - 87)
         else if 65 \<le> n \<and> n \<le> 70 then Some (n - 55)
         else None)"

definition unescape :: "char \<Rightarrow> char option" where
  "unescape e =
     (if e = CHR 0x22 then Some (CHR 0x22)
      else if e = CHR 0x5C then Some (CHR 0x5C)
      else if e = CHR ''/'' then Some (CHR ''/'')
      else if e = CHR ''n'' then Some (CHR 0x0A)
      else if e = CHR ''r'' then Some (CHR 0x0D)
      else if e = CHR ''t'' then Some (CHR 0x09)
      else if e = CHR ''f'' then Some (CHR 0x0C)
      else if e = CHR ''b'' then Some (CHR 0x08)
      else None)"

fun scan_string :: "string \<Rightarrow> (string \<times> string) option" where
  "scan_string [] = None"
| "scan_string (c # cs) =
     (if c = CHR 0x22 then Some ([], cs)
      else if c = CHR 0x5C then
        (case cs of
           [] \<Rightarrow> None
         | e # r \<Rightarrow>
             if e = CHR ''u'' then
               (case r of
                  a # b # x # y # r' \<Rightarrow>
                    if a = CHR ''0'' \<and> b = CHR ''0'' then
                      (case (hex_val x, hex_val y) of
                         (Some h, Some l) \<Rightarrow>
                           map_option (\<lambda>(t, u). (char_of (16 * h + l) # t, u)) (scan_string r')
                       | _ \<Rightarrow> None)
                    else None
                | _ \<Rightarrow> None)
             else
               (case unescape e of
                  None \<Rightarrow> None
                | Some ch \<Rightarrow> map_option (\<lambda>(t, u). (ch # t, u)) (scan_string r)))
      else if (of_char c :: nat) < 0x20 then None
      else map_option (\<lambda>(t, u). (c # t, u)) (scan_string cs))"

definition scan_number :: "string \<Rightarrow> (int \<times> string) option" where
  "scan_number s =
     (let neg = (s \<noteq> [] \<and> hd s = CHR ''-'');
          u = (if neg then tl s else s);
          ds = takeWhile is_digit u;
          rest = dropWhile is_digit u;
          n = foldl (\<lambda>a c. 10 * a + digit_val c) 0 ds
      in if ds = [] \<or> (1 < length ds \<and> hd ds = CHR ''0'') then None
         else if rest \<noteq> [] \<and> hd rest \<in> {CHR ''.'', CHR ''e'', CHR ''E''} then None
         else Some (if neg then - int n else int n, rest))"

fun parse_value :: "nat \<Rightarrow> string \<Rightarrow> (json \<times> string) option"
  and parse_elements :: "nat \<Rightarrow> string \<Rightarrow> (json list \<times> string) option"
  and parse_members :: "nat \<Rightarrow> string \<Rightarrow> ((string \<times> json) list \<times> string) option"
where
  "parse_value 0 s = None"
| "parse_value (Suc n) s =
     (case skip_ws s of
        [] \<Rightarrow> None
      | c # cs \<Rightarrow>
          if c = CHR ''{'' then
            (case skip_ws cs of
               [] \<Rightarrow> None
             | d # ds \<Rightarrow>
                 if d = CHR ''}'' then Some (JObject [], ds)
                 else map_option (\<lambda>(kvs, r). (JObject kvs, r)) (parse_members n (d # ds)))
          else if c = CHR ''['' then
            (case skip_ws cs of
               [] \<Rightarrow> None
             | d # ds \<Rightarrow>
                 if d = CHR '']'' then Some (JArray [], ds)
                 else map_option (\<lambda>(xs, r). (JArray xs, r)) (parse_elements n (d # ds)))
          else if c = CHR 0x22 then map_option (\<lambda>(t, r). (JString t, r)) (scan_string cs)
          else if take 4 (c # cs) = ''null'' then Some (JNull, drop 3 cs)
          else if take 4 (c # cs) = ''true'' then Some (JBool True, drop 3 cs)
          else if take 5 (c # cs) = ''false'' then Some (JBool False, drop 4 cs)
          else map_option (\<lambda>(i, r). (JInt i, r)) (scan_number (c # cs)))"
| "parse_elements 0 s = None"
| "parse_elements (Suc n) s =
     (case parse_value n s of
        None \<Rightarrow> None
      | Some (v, r) \<Rightarrow>
          (case skip_ws r of
             [] \<Rightarrow> None
           | c # cs \<Rightarrow>
               if c = CHR '']'' then Some ([v], cs)
               else if c = CHR '','' then
                 map_option (\<lambda>(vs, r'). (v # vs, r')) (parse_elements n cs)
               else None))"
| "parse_members 0 s = None"
| "parse_members (Suc n) s =
     (case skip_ws s of
        [] \<Rightarrow> None
      | c # cs \<Rightarrow>
          if c = CHR 0x22 then
            (case scan_string cs of
               None \<Rightarrow> None
             | Some (k, r) \<Rightarrow>
                 (case skip_ws r of
                    [] \<Rightarrow> None
                  | c2 # r2 \<Rightarrow>
                      if c2 = CHR '':'' then
                        (case parse_value n r2 of
                           None \<Rightarrow> None
                         | Some (v, r3) \<Rightarrow>
                             (case skip_ws r3 of
                                [] \<Rightarrow> None
                              | c3 # r4 \<Rightarrow>
                                  if c3 = CHR ''}'' then Some ([(k, v)], r4)
                                  else if c3 = CHR '','' then
                                    map_option (\<lambda>(kvs, r'). ((k, v) # kvs, r'))
                                      (parse_members n r4)
                                  else None))
                      else None))
          else None)"

definition json_loads :: "string \<Rightarrow> json option" where
  "json_loads s =
     (case parse_value (Suc (length s)) s of
        None \<Rightarrow> None
      | Some (v, r) \<Rightarrow> if skip_ws r = [] then Some v else None)"

section \<open>String methods used by the base class\<close>

text \<open>
  \<^verbatim>\<open>s.rstrip('\r\n')\<close>, \<^verbatim>\<open>s.split()\<close> (words between runs of whitespace),
  \<^verbatim>\<open>s.split(sep)\<close>, \<^verbatim>\<open>s.startswith(p)\<close>, \<^verbatim>\<open>s.isdigit()\<close> and \<^verbatim>\<open>repr(s)\<close>, on strings of
  code points below 256 (the request line is decoded as ISO-8859-1). Among these code
  points \<^verbatim>\<open>isdigit\<close> holds of \<^verbatim>\<open>0\<close>-\<^verbatim>\<open>9\<close> and of the superscripts 0xB2, 0xB3 and 0xB9;
  \<^verbatim>\<open>repr\<close> escapes the quote in use, the backslash, and every code point that is not
  printable (below 0x20, 0x7F-0xA0 and 0xAD).
\<close>

definition rstrip_crlf :: "string \<Rightarrow> string" where
  "rstrip_crlf s = rev (dropWhile (\<lambda>c. c = CHR 0x0D \<or> c = CHR 0x0A) (rev s))"

fun split_from :: "string \<Rightarrow> string \<Rightarrow> string list" where
  "split_from w [] = (if w = [] then [] else [w])"
| "split_from w (c # cs) =
     (if str_isspace c then (if w = [] then split_from [] cs else w # split_from [] cs)
      else split_from (w @ [c]) cs)"

definition str_split :: "string \<Rightarrow> string list" where
  "str_split s = split_from [] s"

fun split_sep_from :: "char \<Rightarrow> string \<Rightarrow> string \<Rightarrow> string list" where
  "split_sep_from sep w [] = [w]"
| "split_sep_from sep w (c # cs) =
     (if c = sep then w # split_sep_from sep [] cs else split_sep_from sep (w @ [c]) cs)"

definition split_sep :: "char \<Rightarrow> string \<Rightarrow> string list" where
  "split_sep sep s = split_sep_from sep [] s"

definition startswith :: "string \<Rightarrow> string \<Rightarrow> bool" where
  "startswith s p = (take (length p) s = p)"

definition str_isdigit :: "string \<Rightarrow> bool" where
  "str_isdigit s =
     (s \<noteq> [] \<and>
      list_all (\<lambda>c. is_digit c \<or> (of_char c :: nat) = 178 \<or> (of_char c :: nat) = 179
                    \<or> (of_char c :: nat) = 185) s)"

definition repr_char :: "char \<Rightarrow> char \<Rightarrow> string" where
  "repr_char q c =
     (let n = (of_char c :: nat)
      in if c = q \<or> c = CHR 0x5C then [CHR 0x5C, c]
         else if c = CHR 0x09 then [CHR 0x5C, CHR ''t'']
         else if c = CHR 0x0A then [CHR 0x5C, CHR ''n'']
         else if c = CHR 0x0D then [CHR 0x5C, CHR ''r'']
         else if n < 32 \<or> n = 127 \<or> (128 \<le> n \<and> n \<le> 160) \<or> n = 173
           then [CHR 0x5C, CHR ''x'', hex_digit (n div 16), hex_digit (n mod 16)]
         else [c])"

definition py_repr :: "string \<Rightarrow> string" where
  "py_repr s =
     (let q = (if CHR 0x27 \<in> set s \<and> CHR 0x22 \<notin> set s then CHR 0x22 else CHR 0x27)
      in [q] @ concat (map (repr_char q) s) @ [q])"

section \<open>The request handler\<close>

text \<open>
  What a handler writes, in order: the status line, header lines, the blank line that ends
  the headers, and body bytes. \<^verbatim>\<open>send_response\<close> and \<^verbatim>\<open>send_header\<close> append to the
  handler's header buffer, \<^verbatim>\<open>end_headers\<close> moves the buffer and the blank line to
  \<^verbatim>\<open>wfile\<close>, \<^verbatim>\<open>wfile.write\<close> appends bytes.
\<close>

datatype wire = StatusLine int | HeaderLine string string | EndOfHeaders | Data string

text \<open>
  The handler object \<^verbatim>\<open>self\<close>. \<open>rfile\<close> holds the lines the client sent that are not
  read yet, each as \<^verbatim>\<open>readline\<close> returns it (with its line end). \<open>raw_requestline\<close>,
  \<open>requestline\<close>, \<open>command\<close>, \<open>path\<close> and \<open>request_version\<close> are set by the base class
  while it reads the request; \<open>command\<close> is \<^verbatim>\<open>None\<close> until the request line is accepted.
  \<open>version_string\<close>, \<open>date_time_string\<close> and \<open>error_message_format\<close> stand for what
  the base class's methods and template of these names give; the error page is a function
  of the code and the message, which fix the explanation at every call. \<open>stderr\<close> is the
  process's error stream, as a list of log records (format and arguments). The class
  keeps \<^verbatim>\<open>protocol_version = "HTTP/1.0"\<close>, so a connection carries one request and the
  flag \<^verbatim>\<open>close_connection\<close> is left out.
\<close>

record handler =
  rfile :: "string list"
  raw_requestline :: string
  requestline :: string
  command :: "string option"
  path :: string
  request_version :: string
  version_string :: string
  date_time_string :: string
  error_message_format :: "int \<Rightarrow> string \<Rightarrow> string"
  headers_buffer :: "wire list"
  wfile :: "wire list"
  stderr :: "(string \<times> string list) list"

type_synonym log_method = "handler \<Rightarrow> string \<Rightarrow> string list \<Rightarrow> handler"

subsection \<open>Methods inherited from \<^verbatim>\<open>BaseHTTPRequestHandler\<close>\<close>

text \<open>
  The base class calls \<^verbatim>\<open>self.log_message\<close>, which Python resolves on the class of
  \<^verbatim>\<open>self\<close>; the inherited methods therefore take the class's \<open>log_message\<close> as their first
  argument. \<open>base_log_message\<close> is the base class's own method, which writes one line to
  the error stream.
\<close>

definition base_log_message :: log_method where
  "base_log_message self format args = self\<lparr>stderr := stderr self @ [(format, args)]\<rparr>"

definition log_request :: "log_method \<Rightarrow> handler \<Rightarrow> int \<Rightarrow> handler" where
  "log_request lm self code =
     lm self [CHR 0x22, CHR ''%'', CHR ''s'', CHR 0x22, CHR '' '', CHR ''%'', CHR ''s'',
              CHR '' '', CHR ''%'', CHR ''s'']
        [requestline self, str_int code, ''-'']"

definition log_error :: "log_method \<Rightarrow> handler \<Rightarrow> string \<Rightarrow> string list \<Rightarrow> handler" where
  "log_error lm self format args = lm self format args"

text \<open>
  The three methods that write the head of the response do nothing for a request of
  version \<^verbatim>\<open>HTTP/0.9\<close>: such a request is answered with the body alone.
\<close>

definition send_response_only :: "handler \<Rightarrow> int \<Rightarrow> handler" where
  "send_response_only self code =
     (if request_version self \<noteq> ''HTTP/0.9''
      then self\<lparr>headers_buffer := headers_buffer self @ [StatusLine code]\<rparr>
      else self)"

definition send_header :: "handler \<Rightarrow> string \<Rightarrow> string \<Rightarrow> handler" where
  "send_header self keyword v =
     (if request_version self \<noteq> ''HTTP/0.9''
      then self\<lparr>headers_buffer := headers_buffer self @ [HeaderLine keyword v]\<rparr>
      else self)"

definition send_response :: "log_method \<Rightarrow> handler \<Rightarrow> int \<Rightarrow> handler" where
  "send_response lm self code =
     (let s1 = log_request lm self code;
          s2 = send_response_only s1 code;
          s3 = send_header s2 ''Server'' (version_string s2)
      in send_header s3 ''Date'' (date_time_string s3))"

definition flush_headers :: "handler \<Rightarrow> handler" where
  "flush_headers self = self\<lparr>wfile := wfile self @ headers_buffer self, headers_buffer := []\<rparr>"

definition end_headers :: "handler \<Rightarrow> handler" where
  "end_headers self =
     (if request_version self \<noteq> ''HTTP/0.9''
      then flush_headers (self\<lparr>headers_buffer := headers_buffer self @ [EndOfHeaders]\<rparr>)
      else self)"

definition wfile_write :: "handler \<Rightarrow> string \<Rightarrow> handler" where
  "wfile_write self b = self\<lparr>wfile := wfile self @ [Data b]\<rparr>"

definition send_error :: "log_method \<Rightarrow> handler \<Rightarrow> int \<Rightarrow> string \<Rightarrow> handler" where
  "send_error lm self code message =
     (let s1 = log_error lm self ''code %d, message %s'' [str_int code, message];
          s2 = send_response lm s1 code;
          s3 = send_header s2 ''Connection'' ''close'';
          has_body = (200 \<le> code \<and> code \<noteq> 204 \<and> code \<noteq> 205 \<and> code \<noteq> 304);
          body = encode (error_message_format s3 code message);
          s4 = (if has_body
                then send_header (send_header s3 ''Content-Type'' ''text/html;charset=utf-8'')
                       ''Content-Length'' (str_int (int (length body)))
                else s3);
          s5 = end_headers s4
      in if command self \<noteq> Some ''HEAD'' \<and> has_body \<and> body \<noteq> [] then wfile_write s5 body
         else s5)"

subsection \<open>Reading the request: \<^verbatim>\<open>parse_request\<close>\<close>

text \<open>
  \<^verbatim>\<open>rfile.readline(n)\<close> on the lines not read yet: at most \<open>n\<close> bytes of the next line, and
  nothing at the end of the input.
\<close>

definition readline :: "nat \<Rightarrow> string list \<Rightarrow> string \<times> string list" where
  "readline n ls =
     (case ls of
        [] \<Rightarrow> ([], [])
      | l # rest \<Rightarrow> if length l \<le> n then (l, rest) else (take n l, drop n l # rest))"

text \<open>
  The version word of a request line with three or more words: it must be \<^verbatim>\<open>HTTP/\<close>
  followed by two runs of at most ten digits with one dot between them; a major version
  of 2 or more is refused.
\<close>

definition parse_version :: "string \<Rightarrow> (int \<times> int) option" where
  "parse_version version =
     (if \<not> startswith version ''HTTP/'' then None
      else
        (let version_number = split_sep CHR ''.'' (drop 5 version)
         in if length version_number \<noteq> 2 then None
            else if list_ex (\<lambda>component. \<not> str_isdigit component) version_number then None
            else if list_ex (\<lambda>component. 10 < length component) version_number then None
            else
              (case (int_of_str (version_number ! 0), int_of_str (version_number ! 1)) of
                 (Inr major, Inr minor) \<Rightarrow> Some (major, minor)
               | _ \<Rightarrow> None)))"

datatype version_check = NoVersion | BadVersion | TooNew string | GoodVersion

definition check_version :: "string list \<Rightarrow> version_check" where
  "check_version words =
     (if 3 \<le> length words then
        (case parse_version (last words) of
           None \<Rightarrow> BadVersion
         | Some (major, minor) \<Rightarrow>
             if 2 \<le> major then TooNew (drop 5 (last words)) else GoodVersion)
      else NoVersion)"

text \<open>
  The header block, as \<^verbatim>\<open>http.client._read_headers\<close> reads it: a line of more than 65536
  bytes and a block of more than 100 lines (the closing blank line included) are errors.
  The first argument counts the lines read so far.
\<close>

datatype header_error = LineTooLong | TooManyHeaders

fun read_headers :: "nat \<Rightarrow> string list \<Rightarrow> header_error option" where
  "read_headers n [] = (if 100 < Suc n then Some TooManyHeaders else None)"
| "read_headers n (l # ls) =
     (if 65536 < length l then Some LineTooLong
      else if 100 < Suc n then Some TooManyHeaders
      else if l = [CHR 0x0D, CHR 0x0A] \<or> l = [CHR 0x0A] \<or> l = [] then None
      else read_headers (Suc n) ls)"

text \<open>A leading \<^verbatim>\<open>//\<close> of the request target is reduced to one slash.\<close>

definition reduce_slashes :: "string \<Rightarrow> string" where
  "reduce_slashes p =
     (if startswith p ''//'' then CHR ''/'' # dropWhile (\<lambda>c. c = CHR ''/'') p else p)"

text \<open>
  \<open>parse_request\<close> returns \<^verbatim>\<open>True\<close> when the request is accepted, and \<^verbatim>\<open>False\<close> after it
  has sent an error response (or nothing, for a blank request line). \<open>parse_words\<close> is its
  part after the version has been checked. An error found before
  \<^verbatim>\<open>self.request_version\<close> is assigned is sent while the version is still the default
  \<^verbatim>\<open>HTTP/0.9\<close>.
\<close>

definition parse_words :: "log_method \<Rightarrow> handler \<Rightarrow> string list \<Rightarrow> bool \<times> handler" where
  "parse_words lm self words =
     (if \<not> (2 \<le> length words \<and> length words \<le> 3) then
        (False, send_error lm self 400
                  (''Bad request syntax ('' @ py_repr (requestline self) @ '')''))
      else
        (let c = words ! 0; p = words ! 1
         in if length words = 2 \<and> c \<noteq> ''GET'' then
              (False, send_error lm self 400
                        (''Bad HTTP/0.9 request type ('' @ py_repr c @ '')''))
            else
              (let s = self\<lparr>command := Some c, path := reduce_slashes p\<rparr>
               in case read_headers 0 (rfile s) of
                    Some LineTooLong \<Rightarrow> (False, send_error lm s 431 ''Line too long'')
                  | Some TooManyHeaders \<Rightarrow> (False, send_error lm s 431 ''Too many headers'')
                  | None \<Rightarrow> (True, s))))"

definition parse_request :: "log_method \<Rightarrow> handler \<Rightarrow> bool \<times> handler" where
  "parse_request lm self =
     (let s1 = self\<lparr>command := None, request_version := ''HTTP/0.9''\<rparr>;
          s2 = s1\<lparr>requestline := rstrip_crlf (raw_requestline s1)\<rparr>;
          words = str_split (requestline s2)
      in if length words = 0 then (False, s2)
         else
           (case check_version words of
              BadVersion \<Rightarrow>
                (False, send_error lm s2 400
                          (''Bad request version ('' @ py_repr (last words) @ '')''))
            | TooNew base_version_number \<Rightarrow>
                (False, send_error lm s2 505
                          (''Invalid HTTP version ('' @ base_version_number @ '')''))
            | GoodVersion \<Rightarrow> parse_words lm (s2\<lparr>request_version := last words\<rparr>) words
            | NoVersion \<Rightarrow> parse_words lm s2 words))"

subsection \<open>\<^verbatim>\<open>class HealthHandler(BaseHTTPRequestHandler)\<close>\<close>

definition log_message :: log_method where
  "log_message self format args = self"

definition do_GET :: "handler \<Rightarrow> handler" where
  \<open>do_GET self =
     (if path self = ''/health'' then
        (let s1 = send_response log_message self 200;
             s2 = send_header s1 ''Content-Type'' ''application/json'';
             s3 = end_headers s2
         in wfile_write s3 (encode (json_dumps (JObject [(''status'', JString ''ok'')]))))
      else
        (let s1 = send_response log_message self 200;
             s2 = send_header s1 ''Content-Type'' ''text/plain'';
             s3 = end_headers s2
         in wfile_write s3 ''Supply Chain POC App''))\<close>

text \<open>
  The base class's \<^verbatim>\<open>handle_one_request\<close> reads the request line (a line of more than
  65536 bytes is answered with 414, no line at all with nothing), parses the request, and
  looks up the method named \<^verbatim>\<open>'do_' + command\<close> on the handler. \<^verbatim>\<open>HealthHandler\<close> defines
  \<^verbatim>\<open>do_GET\<close> and the base class defines no method of such a name, so the lookup succeeds
  for \<^verbatim>\<open>GET\<close> alone; otherwise the base class answers through \<^verbatim>\<open>send_error\<close> with
  \<^verbatim>\<open>NOT_IMPLEMENTED\<close> (501). An accepted request has a command, so the branch for
  \<^verbatim>\<open>None\<close> is never taken.
\<close>

definition handle_one_request :: "handler \<Rightarrow> handler" where
  "handle_one_request self =
     (let (raw, rest) = readline 65537 (rfile self);
          s0 = self\<lparr>raw_requestline := raw, rfile := rest\<rparr>
      in if 65536 < length raw then
           send_error log_message
             (s0\<lparr>requestline := [], request_version := [], command := Some []\<rparr>)
             414 ''Request-URI Too Long''
         else if raw = [] then s0
         else
           (let (ok, s) = parse_request log_message s0
            in if \<not> ok then s
               else
                 (case command s of
                    None \<Rightarrow> s
                  | Some c \<Rightarrow>
                      (let mname = ''do_'' @ c
                       in if mname = ''do_GET'' then do_GET s
                          else send_error log_message s 501
                                 (''Unsupported method ('' @ py_repr c @ '')'')))))"

section \<open>Serving requests\<close>

text \<open>
  The server creates a new handler object for each connection, and the handler answers
  the first request on it. A request carries the lines the client sent, the request line
  first, and the date the base class will print. \<open>library\<close> holds what is fixed by the
  installed \<^verbatim>\<open>http.server\<close>: its version string and its error page template.
\<close>

record request =
  req_lines :: "string list"
  req_date :: string

record library =
  lib_version_string :: string
  lib_error_message_format :: "int \<Rightarrow> string \<Rightarrow> string"

definition new_handler ::
  "library \<Rightarrow> (string \<times> string list) list \<Rightarrow> request \<Rightarrow> handler" where
  "new_handler lib err r =
     \<lparr>rfile = req_lines r, raw_requestline = [], requestline = [], command = None,
      path = [], request_version = [],
      version_string = lib_version_string lib, date_time_string = req_date r,
      error_message_format = lib_error_message_format lib,
      headers_buffer = [], wfile = [], stderr = err\<rparr>"

text \<open>
  \<^verbatim>\<open>serve_forever\<close> on the requests that have arrived so far: the bytes written for each
  request, in order, and the error stream afterwards.
\<close>

fun serve_forever ::
  "library \<Rightarrow> (string \<times> string list) list \<Rightarrow> request list
     \<Rightarrow> wire list list \<times> (string \<times> string list) list" where
  "serve_forever lib err [] = ([], err)"
| "serve_forever lib err (r # rs) =
     (let h = handle_one_request (new_handler lib err r);
          (outs, err') = serve_forever lib (stderr h) rs
      in (wfile h # outs, err'))"

subsection \<open>The response as the client reads it\<close>

text \<open>
  A response that starts with a status line has a status, headers and a body. Without a
  status line (the answer to a request of version \<^verbatim>\<open>HTTP/0.9\<close>) there is the body alone:
  no status and no headers.
\<close>

record response =
  status :: "int option"
  headers :: "(string \<times> string) list"
  body :: string

fun header_lines :: "wire list \<Rightarrow> (string \<times> string) list" where
  "header_lines (HeaderLine k v # ws) = (k, v) # header_lines ws"
| "header_lines _ = []"

fun after_headers :: "wire list \<Rightarrow> wire list option" where
  "after_headers (HeaderLine k v # ws) = after_headers ws"
| "after_headers (EndOfHeaders # ws) = Some ws"
| "after_headers _ = None"

fun data_of :: "wire list \<Rightarrow> string option" where
  "data_of [] = Some []"
| "data_of (Data b # ws) = map_option ((@) b) (data_of ws)"
| "data_of _ = None"

fun response_of :: "wire list \<Rightarrow> response option" where
  "response_of (StatusLine code # ws) =
     (case after_headers ws of
        None \<Rightarrow> None
      | Some bs \<Rightarrow>
          (case data_of bs of
             None \<Rightarrow> None
           | Some b \<Rightarrow> Some \<lparr>status = Some code, headers = header_lines ws, body = b\<rparr>))"
| "response_of ws =
     (case data_of ws of
        None \<Rightarrow> None
      | Some b \<Rightarrow> Some \<lparr>status = None, headers = [], body = b\<rparr>)"

definition content_type :: "response \<Rightarrow> string option" where
  "content_type r = map_of (headers r) ''Content-Type''"

definition respond :: "library \<Rightarrow> (string \<times> string list) list \<Rightarrow> request \<Rightarrow> response option" where
  "respond lib err r = response_of (wfile (handle_one_request (new_handler lib err r)))"

text \<open>
  The handler's view of a request: the state in which \<open>parse_request\<close> leaves the handler
  when it accepts the request line and the header block.
\<close>

definition accepted :: "library \<Rightarrow> (string \<times> string list) list \<Rightarrow> request \<Rightarrow> handler option" where
  "accepted lib err r =
     (let (raw, rest) = readline 65537 (req_lines r);
          s0 = (new_handler lib err r)\<lparr>raw_requestline := raw, rfile := rest\<rparr>
      in if 65536 < length raw \<or> raw = [] then None
         else (let (ok, s) = parse_request log_message s0 in if ok then Some s else None))"

text \<open>The request target: the second word of the request line.\<close>

definition request_target :: "request \<Rightarrow> string" where
  "request_target r =
     (case req_lines r of
        [] \<Rightarrow> []
      | l # ls \<Rightarrow> (case str_split (rstrip_crlf l) of c # t # ws \<Rightarrow> t | _ \<Rightarrow> []))"

section \<open>Module execution: imports and the \<^verbatim>\<open>__main__\<close> block\<close>

text \<open>
  \<^verbatim>\<open>HTTPServer((host, port), HealthHandler)\<close> binds and listens in its constructor. Python
  rejects a port outside 0..65535 with \<^verbatim>\<open>OverflowError\<close> before the system call; the
  operating system then accepts or refuses the address (\<^verbatim>\<open>OSError\<close>: address in use,
  permission denied). After the bind the constructor sets \<^verbatim>\<open>server_address\<close> to the
  socket's own name: the address asked for, with the port the operating system picked
  when the port asked for is 0. The operating system is two parameters: \<open>bind_ok\<close>, its
  answer to a bind, and \<open>eph\<close>, the port it picks for port 0.
\<close>

record server =
  server_address :: "string \<times> int"

definition getsockname :: "int \<Rightarrow> string \<times> int \<Rightarrow> string \<times> int" where
  "getsockname eph addr = (fst addr, if snd addr = 0 then eph else snd addr)"

definition HTTPServer ::
  "(string \<times> int \<Rightarrow> bool) \<Rightarrow> int \<Rightarrow> string \<times> int \<Rightarrow> exn + server" where
  "HTTPServer bind_ok eph addr =
     (if snd addr < 0 \<or> 65535 < snd addr then Inl OverflowError
      else if bind_ok addr then Inr \<lparr>server_address = getsockname eph addr\<rparr>
      else Inl OSError)"

text \<open>The variable \<^verbatim>\<open>port\<close> of the \<^verbatim>\<open>__main__\<close> block.\<close>

definition port :: "environ \<Rightarrow> exn + int" where
  "port env = py_int (environ_get env ''PORT'' (PyInt 8080))"

text \<open>
  The \<^verbatim>\<open>__main__\<close> block up to the call of \<^verbatim>\<open>serve_forever\<close>: either an exception, which
  nothing catches, or the listening server together with the lines printed to standard
  output.
\<close>

definition main ::
  "environ \<Rightarrow> (string \<times> int \<Rightarrow> bool) \<Rightarrow> int \<Rightarrow> exn + (server \<times> string list)" where
  "main env bind_ok eph =
     (case port env of
        Inl e \<Rightarrow> Inl e
      | Inr p \<Rightarrow>
          (case HTTPServer bind_ok eph (''0.0.0.0'', p) of
             Inl e \<Rightarrow> Inl e
           | Inr srv \<Rightarrow> Inr (srv, [''Server running on port '' @ str_int p])))"

text \<open>
  An exception that reaches the top level ends the interpreter with exit status 1; a
  server that started does not exit.
\<close>

fun exit_status :: "exn + 'a \<Rightarrow> int option" where
  "exit_status (Inl e) = Some 1"
| "exit_status (Inr x) = None"

text \<open>
  The third-party imports at the top of the module, in order. \<^verbatim>\<open>import m\<close> raises
  \<^verbatim>\<open>ModuleNotFoundError\<close> when no module of that name is installed; the names are bound
  and never used afterwards. \<open>installed\<close> lists the importable module names of the
  environment.
\<close>

definition module_imports :: "string list" where
  "module_imports = [''flask'', ''requests'', ''pyyaml'', ''cryptography'']"

fun import_all :: "string list \<Rightarrow> string list \<Rightarrow> exn option" where
  "import_all installed [] = None"
| "import_all installed (m # ms) =
     (if m \<in> set installed then import_all installed ms else Some (ModuleNotFoundError m))"

definition run_module ::
  "string list \<Rightarrow> environ \<Rightarrow> (string \<times> int \<Rightarrow> bool) \<Rightarrow> int
     \<Rightarrow> exn + (server \<times> string list)" where
  "run_module installed env bind_ok eph =
     (case import_all installed module_imports of
        Some e \<Rightarrow> Inl e
      | None \<Rightarrow> main env bind_ok eph)"

section \<open>Concrete values for examples\<close>

text \<open>
  A library configuration and a date used where a statement is evaluated at a concrete
  request. The error page of \<open>example_library\<close> is a one-line stand-in for the base
  class's HTML template. \<open>request_of\<close> is the request a client sends with the given
  request line, one \<^verbatim>\<open>Host\<close> header and the closing blank line.
\<close>

definition example_library :: library where
  "example_library =
     \<lparr>lib_version_string = ''BaseHTTP/0.6 Python/3.11.10'',
      lib_error_message_format =
        (\<lambda>code message. ''Error code: '' @ str_int code @ ''; '' @ message)\<rparr>"

definition example_date :: string where
  "example_date = ''Thu, 01 Jan 1970 00:00:00 GMT''"

definition CRLF :: string where
  "CRLF = [CHR 0x0D, CHR 0x0A]"

definition request_of :: "string \<Rightarrow> request" where
  "request_of line =
     \<lparr>req_lines = [line @ CRLF, ''Host: localhost'' @ CRLF, CRLF], req_date = example_date\<rparr>"

text \<open>
  Two operating systems: one that accepts every bind, and one on which the port \<open>q\<close> is
  taken and every other bind is accepted.
\<close>

definition any_bind_ok :: "string \<times> int \<Rightarrow> bool" where
  "any_bind_ok addr = True"

definition free_except :: "int \<Rightarrow> string \<times> int \<Rightarrow> bool" where
  "free_except q addr = (snd addr \<noteq> q)"

section \<open>What \<^verbatim>\<open>do_GET\<close> writes\<close>

lemma health_body:
  \<open>encode (json_dumps (JObject [(''status'', JString ''ok'')])) = ''{"status": "ok"}''\<close>
  by code_simp

lemma health_body_loads:
  \<open>json_loads ''{"status": "ok"}'' = Some (JObject [(''status'', JString ''ok'')])\<close>
  by code_simp

lemmas handler_defs = send_response_def log_request_def send_response_only_def
  send_header_def end_headers_def flush_headers_def wfile_write_def log_message_def
  log_error_def

lemma do_GET_health_head:
  \<open>path self = ''/health'' \<Longrightarrow> request_version self \<noteq> ''HTTP/0.9'' \<Longrightarrow> do_GET self =
     self\<lparr>wfile := wfile self @ headers_buffer self @
        [StatusLine 200, HeaderLine ''Server'' (version_string self),
         HeaderLine ''Date'' (date_time_string self),
         HeaderLine ''Content-Type'' ''application/json'', EndOfHeaders,
         Data ''{"status": "ok"}''], headers_buffer := []\<rparr>\<close>
  by (simp add: do_GET_def handler_defs health_body Let_def del: json_dumps.simps)

lemma do_GET_health_simple:
  \<open>path self = ''/health'' \<Longrightarrow> request_version self = ''HTTP/0.9'' \<Longrightarrow> do_GET self =
     self\<lparr>wfile := wfile self @ [Data ''{"status": "ok"}'']\<rparr>\<close>
  by (simp add: do_GET_def handler_defs health_body Let_def del: json_dumps.simps)

lemma do_GET_other_head:
  \<open>path self \<noteq> ''/health'' \<Longrightarrow> request_version self \<noteq> ''HTTP/0.9'' \<Longrightarrow> do_GET self =
     self\<lparr>wfile := wfile self @ headers_buffer self @
        [StatusLine 200, HeaderLine ''Server'' (version_string self),
         HeaderLine ''Date'' (date_time_string self),
         HeaderLine ''Content-Type'' ''text/plain'', EndOfHeaders,
         Data ''Supply Chain POC App''], headers_buffer := []\<rparr>\<close>
  by (simp add: do_GET_def handler_defs Let_def)

lemma do_GET_other_simple:
  \<open>path self \<noteq> ''/health'' \<Longrightarrow> request_version self = ''HTTP/0.9'' \<Longrightarrow> do_GET self =
     self\<lparr>wfile := wfile self @ [Data ''Supply Chain POC App'']\<rparr>\<close>
  by (simp add: do_GET_def handler_defs Let_def)

subsection \<open>The head of a response, by request version\<close>

lemma send_response_head:
  "request_version s \<noteq> ''HTTP/0.9'' \<Longrightarrow> send_response log_message s code =
     s\<lparr>headers_buffer := headers_buffer s @
        [StatusLine code, HeaderLine ''Server'' (version_string s),
         HeaderLine ''Date'' (date_time_string s)]\<rparr>"
  by (simp add: handler_defs Let_def)

lemma send_response_simple:
  "request_version s = ''HTTP/0.9'' \<Longrightarrow> send_response log_message s code = s"
  by (simp add: handler_defs Let_def)







lemma send_error_stderr: "stderr (send_error log_message self code message) = stderr self"
proof -
  have a: "stderr (send_response log_message s c) = stderr s" for s c
    by (cases "request_version s = ''HTTP/0.9''")
       (simp_all add: send_response_head send_response_simple)
  have b: "stderr (send_header s k v) = stderr s" for s k v
    by (simp add: send_header_def)
  have c: "stderr (end_headers s) = stderr s" for s
    by (simp add: end_headers_def flush_headers_def)
  have d: "stderr (wfile_write s x) = stderr s" for s x
    by (simp add: wfile_write_def)
  show ?thesis
    by (simp add: send_error_def Let_def log_error_def log_message_def a b c d)
qed

lemma do_GET_stderr: "stderr (do_GET self) = stderr self"
proof (cases "request_version self = ''HTTP/0.9''")
  case True
  then show ?thesis
    by (cases "path self = ''/health''") (simp_all add: do_GET_health_simple do_GET_other_simple)
next
  case False
  then show ?thesis
    by (cases "path self = ''/health''") (simp_all add: do_GET_health_head do_GET_other_head)
qed

section \<open>Accepted requests\<close>

lemma parse_words_True:
  assumes "parse_words lm self words = (True, s)"
  shows "s = self\<lparr>command := Some (words ! 0), path := reduce_slashes (words ! 1)\<rparr>"
proof -
  from assms have len: "2 \<le> length words \<and> length words \<le> 3"
    by (cases "2 \<le> length words \<and> length words \<le> 3") (simp_all add: parse_words_def)
  from assms len have ok: "\<not> (length words = 2 \<and> words ! 0 \<noteq> ''GET'')"
    by (cases "length words = 2 \<and> words ! 0 \<noteq> ''GET''") (simp_all add: parse_words_def Let_def)
  from assms len ok show ?thesis
    by (simp add: parse_words_def Let_def split: option.splits header_error.splits)
qed

lemma parse_request_True:
  assumes "parse_request lm self = (True, s)"
  shows "s = self\<lparr>requestline := rstrip_crlf (raw_requestline self),
               command := Some (str_split (rstrip_crlf (raw_requestline self)) ! 0),
               path := reduce_slashes (str_split (rstrip_crlf (raw_requestline self)) ! 1),
               request_version :=
                 (if check_version (str_split (rstrip_crlf (raw_requestline self))) = GoodVersion
                  then last (str_split (rstrip_crlf (raw_requestline self)))
                  else ''HTTP/0.9'')\<rparr>"
proof -
  let ?words = "str_split (rstrip_crlf (raw_requestline self))"
  let ?s2 = "self\<lparr>command := None, request_version := ''HTTP/0.9'',
                   requestline := rstrip_crlf (raw_requestline self)\<rparr>"
  from assms have ne: "length ?words \<noteq> 0"
    by (cases "length ?words = 0") (simp_all add: parse_request_def Let_def)
  show ?thesis
  proof (cases "check_version ?words")
    case NoVersion
    with assms ne have "parse_words lm ?s2 ?words = (True, s)"
      by (simp add: parse_request_def Let_def)
    from parse_words_True [OF this] show ?thesis by (simp add: NoVersion)
  next
    case BadVersion
    with assms ne show ?thesis by (simp add: parse_request_def Let_def)
  next
    case (TooNew b)
    with assms ne show ?thesis by (simp add: parse_request_def Let_def)
  next
    case GoodVersion
    with assms ne have "parse_words lm (?s2\<lparr>request_version := last ?words\<rparr>) ?words = (True, s)"
      by (simp add: parse_request_def Let_def)
    from parse_words_True [OF this] show ?thesis by (simp add: GoodVersion)
  qed
qed


lemma accepted_parse:
  assumes "accepted lib err r = Some s"
  obtains raw rest where "readline 65537 (req_lines r) = (raw, rest)"
    and "parse_request log_message
           ((new_handler lib err r)\<lparr>raw_requestline := raw, rfile := rest\<rparr>) = (True, s)"
    and "\<not> 65536 < length raw" and "raw \<noteq> []"
proof -
  obtain raw rest where rd: "readline 65537 (req_lines r) = (raw, rest)"
    by (cases "readline 65537 (req_lines r)")
  let ?s0 = "(new_handler lib err r)\<lparr>raw_requestline := raw, rfile := rest\<rparr>"
  from assms rd have ok: "\<not> (65536 < length raw \<or> raw = [])"
    by (cases "65536 < length raw \<or> raw = []") (simp_all add: accepted_def)
  obtain b s' where pr: "parse_request log_message ?s0 = (b, s')"
    by (cases "parse_request log_message ?s0")
  from assms rd ok pr have "b" and "s' = s"
    by (cases b; simp add: accepted_def)+
  with pr have "parse_request log_message ?s0 = (True, s)" by simp
  moreover from ok have "\<not> 65536 < length raw" and "raw \<noteq> []" by simp_all
  ultimately show thesis using rd that by blast
qed

lemma accepted_fields:
  assumes "accepted lib err r = Some s"
  shows "wfile s = []" and "headers_buffer s = []" and "stderr s = err"
    and "version_string s = lib_version_string lib" and "date_time_string s = req_date r"
    and "error_message_format s = lib_error_message_format lib"
    and "command s = Some (str_split (requestline s) ! 0)"
    and "path s = reduce_slashes (str_split (requestline s) ! 1)"
proof -
  from assms obtain raw rest where
    "parse_request log_message
       ((new_handler lib err r)\<lparr>raw_requestline := raw, rfile := rest\<rparr>) = (True, s)"
    by (rule accepted_parse)
  from parse_request_True [OF this]
  show "wfile s = []" and "headers_buffer s = []" and "stderr s = err"
    and "version_string s = lib_version_string lib" and "date_time_string s = req_date r"
    and "error_message_format s = lib_error_message_format lib"
    and "command s = Some (str_split (requestline s) ! 0)"
    and "path s = reduce_slashes (str_split (requestline s) ! 1)"
    by (simp_all add: new_handler_def)
qed

lemma handle_accepted:
  assumes "accepted lib err r = Some s" and "command s = Some c"
  shows "handle_one_request (new_handler lib err r) =
           (if c = ''GET'' then do_GET s
            else send_error log_message s 501 (''Unsupported method ('' @ py_repr c @ '')''))"
proof -
  from assms(1) obtain raw rest where rd: "readline 65537 (req_lines r) = (raw, rest)"
    and pr: "parse_request log_message
           ((new_handler lib err r)\<lparr>raw_requestline := raw, rfile := rest\<rparr>) = (True, s)"
    and len: "\<not> 65536 < length raw" and ne: "raw \<noteq> []"
    by (rule accepted_parse)
  have rf: "rfile (new_handler lib err r) = req_lines r" by (simp add: new_handler_def)
  show ?thesis
    using rd pr len ne assms(2) by (simp add: handle_one_request_def rf Let_def)
qed

lemma respond_GET_health_head:
  assumes "accepted lib err r = Some s" and "command s = Some ''GET''"
    and "path s = ''/health''" and "request_version s \<noteq> ''HTTP/0.9''"
  shows \<open>respond lib err r = Some \<lparr>status = Some 200,
     headers = [(''Server'', lib_version_string lib), (''Date'', req_date r),
                (''Content-Type'', ''application/json'')],
     body = ''{"status": "ok"}''\<rparr>\<close>
  using assms accepted_fields [OF assms(1)]
  by (simp add: respond_def handle_accepted do_GET_health_head)

lemma respond_GET_health_simple:
  assumes "accepted lib err r = Some s" and "command s = Some ''GET''"
    and "path s = ''/health''" and "request_version s = ''HTTP/0.9''"
  shows \<open>respond lib err r = Some \<lparr>status = None, headers = [], body = ''{"status": "ok"}''\<rparr>\<close>
  using assms accepted_fields [OF assms(1)]
  by (simp add: respond_def handle_accepted do_GET_health_simple)

lemma respond_GET_other_head:
  assumes "accepted lib err r = Some s" and "command s = Some ''GET''"
    and "path s \<noteq> ''/health''" and "request_version s \<noteq> ''HTTP/0.9''"
  shows "respond lib err r = Some \<lparr>status = Some 200,
     headers = [(''Server'', lib_version_string lib), (''Date'', req_date r),
                (''Content-Type'', ''text/plain'')],
     body = ''Supply Chain POC App''\<rparr>"
  using assms accepted_fields [OF assms(1)]
  by (simp add: respond_def handle_accepted do_GET_other_head)

lemma respond_GET_other_simple:
  assumes "accepted lib err r = Some s" and "command s = Some ''GET''"
    and "path s \<noteq> ''/health''" and "request_version s = ''HTTP/0.9''"
  shows "respond lib err r = Some \<lparr>status = None, headers = [], body = ''Supply Chain POC App''\<rparr>"
  using assms accepted_fields [OF assms(1)]
  by (simp add: respond_def handle_accepted do_GET_other_simple)

lemmas parse_eval = accepted_def request_of_def CRLF_def readline_def new_handler_def
  parse_request_def parse_words_def check_version_def parse_version_def str_split_def
  rstrip_crlf_def str_isspace_def split_sep_def startswith_def str_isdigit_def
  reduce_slashes_def is_digit_def int_of_str_def strip_def py_isspace_def digit_val_def
  unsigned_of_str_def max_str_digits_def Let_def

lemma accepted_health_11:
  "\<exists>s. accepted example_library [] (request_of ''GET /health HTTP/1.1'') = Some s
     \<and> command s = Some ''GET'' \<and> path s = ''/health'' \<and> request_version s = ''HTTP/1.1''"
  by (simp add: parse_eval)

lemma accepted_health_09:
  "\<exists>s. accepted example_library [] (request_of ''GET /health'') = Some s
     \<and> command s = Some ''GET'' \<and> path s = ''/health'' \<and> request_version s = ''HTTP/0.9''"
  by (simp add: parse_eval)

lemma readline_short: "readline n (l # ls) = (raw, rest) \<Longrightarrow> length raw < n \<Longrightarrow> raw = l"
  by (auto simp add: readline_def split: if_splits)

lemma parse_words_length: "parse_words lm self words = (True, s) \<Longrightarrow> 2 \<le> length words"
  by (cases "2 \<le> length words \<and> length words \<le> 3") (simp_all add: parse_words_def)

lemma parse_request_length:
  assumes "parse_request lm self = (True, s)"
  shows "2 \<le> length (str_split (rstrip_crlf (raw_requestline self)))"
proof -
  let ?words = "str_split (rstrip_crlf (raw_requestline self))"
  from assms have ne: "length ?words \<noteq> 0"
    by (cases "length ?words = 0") (simp_all add: parse_request_def Let_def)
  show ?thesis
  proof (cases "check_version ?words")
    case NoVersion
    with assms ne show ?thesis
      by (auto simp add: parse_request_def Let_def dest: parse_words_length)
  next
    case BadVersion
    with assms ne show ?thesis by (simp add: parse_request_def Let_def)
  next
    case (TooNew b)
    with assms ne show ?thesis by (simp add: parse_request_def Let_def)
  next
    case GoodVersion
    with assms ne show ?thesis
      by (auto simp add: parse_request_def Let_def dest: parse_words_length)
  qed
qed

lemma accepted_target:
  assumes "accepted lib err r = Some s"
  shows "path s = reduce_slashes (request_target r)"
proof -
  from assms obtain raw rest where rd: "readline 65537 (req_lines r) = (raw, rest)"
    and pr: "parse_request log_message
           ((new_handler lib err r)\<lparr>raw_requestline := raw, rfile := rest\<rparr>) = (True, s)"
    and len: "\<not> 65536 < length raw" and ne: "raw \<noteq> []"
    by (rule accepted_parse)
  from rd ne obtain l ls where ls: "req_lines r = l # ls"
    by (cases "req_lines r") (auto simp add: readline_def)
  with rd len have raw: "raw = l" by (auto dest: readline_short)
  from parse_request_length [OF pr] raw
  obtain c t ws where w: "str_split (rstrip_crlf l) = c # t # ws"
    by (cases "str_split (rstrip_crlf l)" rule: list.exhaust [case_names Nil Cons])
       (auto simp add: Suc_le_eq neq_Nil_conv)
  from parse_request_True [OF pr] raw w ls show ?thesis
    by (simp add: request_target_def)
qed

lemma reduce_slashes_health:
  "(reduce_slashes t = ''/health'') = (\<exists>n. t = replicate (Suc n) CHR ''/'' @ ''health'')"
proof
  assume r: "reduce_slashes t = ''/health''"
  show "\<exists>n. t = replicate (Suc n) CHR ''/'' @ ''health''"
  proof (cases "startswith t ''//''")
    case False
    with r have "t = replicate (Suc 0) CHR ''/'' @ ''health''" by (simp add: reduce_slashes_def)
    then show ?thesis by blast
  next
    case True
    let ?P = "\<lambda>c. c = CHR ''/''"
    from True r have d: "dropWhile ?P t = ''health''" by (simp add: reduce_slashes_def)
    have "takeWhile ?P t = replicate (length (takeWhile ?P t)) CHR ''/''"
      by (rule replicate_length_same [symmetric]) (auto dest: set_takeWhileD)
    moreover have "t = takeWhile ?P t @ dropWhile ?P t" by simp
    moreover from True have "takeWhile ?P t \<noteq> []"
      by (cases t) (auto simp add: startswith_def)
    ultimately obtain k where "t = replicate (Suc k) CHR ''/'' @ ''health''"
      using d by (metis length_0_conv not0_implies_Suc)
    then show ?thesis by blast
  qed
next
  assume "\<exists>n. t = replicate (Suc n) CHR ''/'' @ ''health''"
  then obtain n where t: "t = replicate (Suc n) CHR ''/'' @ ''health''" by blast
  show "reduce_slashes t = ''/health''"
  proof (cases n)
    case 0
    with t show ?thesis by (simp add: reduce_slashes_def startswith_def)
  next
    case (Suc m)
    have "dropWhile (\<lambda>c. c = CHR ''/'') (replicate (Suc n) CHR ''/'' @ ''health'') = ''health''"
      by (induction n) simp_all
    with t Suc show ?thesis by (simp add: reduce_slashes_def startswith_def)
  qed
qed

section \<open>The two GET responses\<close>

text \<open>
  Claim C1, as the specification states it: every GET request for \<^verbatim>\<open>/health\<close> is answered
  with status 200 and the header \<^verbatim>\<open>Content-Type: application/json\<close>. The request line
  \<^verbatim>\<open>GET /health\<close>, which names no HTTP version, is a request of version 0.9 for the base
  class: the answer is the sixteen body bytes alone, with no status line and no header.
\<close>

theorem health_status_counterexample:
  \<open>respond example_library [] (request_of ''GET /health'')
     = Some \<lparr>status = None, headers = [], body = ''{"status": "ok"}''\<rparr>\<close>
proof -
  obtain s where "accepted example_library [] (request_of ''GET /health'') = Some s"
    and "command s = Some ''GET''" and "path s = ''/health''"
    and "request_version s = ''HTTP/0.9''"
    using accepted_health_09 by blast
  then show ?thesis by (rule respond_GET_health_simple)
qed

text \<open>
  Claim C1, amended. Every GET request that the base class accepts with the path
  \<^verbatim>\<open>/health\<close> is answered with the body \<^verbatim>\<open>{"status": "ok"}\<close>, which parses as JSON to the
  object with the one member \<^verbatim>\<open>status\<close> of value \<^verbatim>\<open>ok\<close>. When the request's version is
  not \<^verbatim>\<open>HTTP/0.9\<close>, the response has status 200 and the header
  \<^verbatim>\<open>Content-Type: application/json\<close>; for a request of version 0.9 the body is all that
  is sent.
\<close>

theorem health_response:
  assumes "accepted lib err r = Some s" and "command s = Some ''GET''"
    and "path s = ''/health''"
  shows \<open>\<exists>resp. respond lib err r = Some resp
           \<and> body resp = ''{"status": "ok"}''
           \<and> json_loads (body resp) = Some (JObject [(''status'', JString ''ok'')])
           \<and> (request_version s \<noteq> ''HTTP/0.9'' \<longrightarrow>
                status resp = Some 200 \<and> content_type resp = Some ''application/json'')
           \<and> (request_version s = ''HTTP/0.9'' \<longrightarrow>
                status resp = None \<and> headers resp = [])\<close>
proof (cases "request_version s = ''HTTP/0.9''")
  case True
  with assms show ?thesis
    by (simp add: respond_GET_health_simple health_body_loads)
next
  case False
  with assms show ?thesis
    by (simp add: respond_GET_health_head content_type_def health_body_loads)
qed

theorem health_response_witness:
  \<open>(\<exists>s. accepted example_library [] (request_of ''GET /health HTTP/1.1'') = Some s
      \<and> command s = Some ''GET'' \<and> path s = ''/health''
      \<and> request_version s \<noteq> ''HTTP/0.9''
      \<and> (\<exists>resp. respond example_library [] (request_of ''GET /health HTTP/1.1'') = Some resp
           \<and> body resp = ''{"status": "ok"}''
           \<and> json_loads (body resp) = Some (JObject [(''status'', JString ''ok'')])
           \<and> status resp = Some 200 \<and> content_type resp = Some ''application/json''))
   \<and> (\<exists>s. accepted example_library [] (request_of ''GET /health'') = Some s
      \<and> command s = Some ''GET'' \<and> path s = ''/health''
      \<and> request_version s = ''HTTP/0.9''
      \<and> (\<exists>resp. respond example_library [] (request_of ''GET /health'') = Some resp
           \<and> body resp = ''{"status": "ok"}''
           \<and> json_loads (body resp) = Some (JObject [(''status'', JString ''ok'')])
           \<and> status resp = None \<and> headers resp = []))\<close>
proof -
  obtain s where s: "accepted example_library [] (request_of ''GET /health HTTP/1.1'') = Some s"
    "command s = Some ''GET''" "path s = ''/health''" "request_version s = ''HTTP/1.1''"
    using accepted_health_11 by blast
  obtain u where u: "accepted example_library [] (request_of ''GET /health'') = Some u"
    "command u = Some ''GET''" "path u = ''/health''" "request_version u = ''HTTP/0.9''"
    using accepted_health_09 by blast
  from health_response [OF s(1) s(2) s(3)] s
  have a: \<open>\<exists>s. accepted example_library [] (request_of ''GET /health HTTP/1.1'') = Some s
      \<and> command s = Some ''GET'' \<and> path s = ''/health''
      \<and> request_version s \<noteq> ''HTTP/0.9''
      \<and> (\<exists>resp. respond example_library [] (request_of ''GET /health HTTP/1.1'') = Some resp
           \<and> body resp = ''{"status": "ok"}''
           \<and> json_loads (body resp) = Some (JObject [(''status'', JString ''ok'')])
           \<and> status resp = Some 200 \<and> content_type resp = Some ''application/json'')\<close>
    by auto
  from health_response [OF u(1) u(2) u(3)] u
  have b: \<open>\<exists>s. accepted example_library [] (request_of ''GET /health'') = Some s
      \<and> command s = Some ''GET'' \<and> path s = ''/health''
      \<and> request_version s = ''HTTP/0.9''
      \<and> (\<exists>resp. respond example_library [] (request_of ''GET /health'') = Some resp
           \<and> body resp = ''{"status": "ok"}''
           \<and> json_loads (body resp) = Some (JObject [(''status'', JString ''ok'')])
           \<and> status resp = None \<and> headers resp = [])\<close>
    by auto
  from a b show ?thesis by blast
qed

lemma accepted_foo_09:
  "\<exists>s. accepted example_library [] (request_of ''GET /foo'') = Some s
     \<and> command s = Some ''GET'' \<and> path s = ''/foo'' \<and> request_version s = ''HTTP/0.9''"
  by (simp add: parse_eval)

lemma accepted_barbaz_10:
  "\<exists>s. accepted example_library [] (request_of ''GET /bar/baz HTTP/1.0'') = Some s
     \<and> command s = Some ''GET'' \<and> path s = ''/bar/baz'' \<and> request_version s = ''HTTP/1.0''"
  by (simp add: parse_eval)

lemma accepted_double_slash:
  "\<exists>s. accepted example_library [] (request_of ''GET //health HTTP/1.1'') = Some s
     \<and> command s = Some ''GET'' \<and> path s = ''/health'' \<and> request_version s = ''HTTP/1.1''"
  by (simp add: parse_eval)

lemma accepted_query:
  "\<exists>s. accepted example_library [] (request_of ''GET /health?x=1 HTTP/1.1'') = Some s
     \<and> command s = Some ''GET'' \<and> path s = ''/health?x=1'' \<and> request_version s = ''HTTP/1.1''"
  by (simp add: parse_eval)

lemma req_date_request_of: "req_date (request_of line) = example_date"
  by (simp add: request_of_def)

lemma target_query: "request_target (request_of ''GET /health?x=1 HTTP/1.1'') = ''/health?x=1''"
  by (simp add: request_target_def parse_eval)

lemma target_double_slash: "request_target (request_of ''GET //health HTTP/1.1'') = ''//health''"
  by (simp add: request_target_def parse_eval)

text \<open>
  Claim C2, as the specification states it: every GET request for a path other than
  \<^verbatim>\<open>/health\<close> is answered with status 200 and the header \<^verbatim>\<open>Content-Type: text/plain\<close>. The
  request line \<^verbatim>\<open>GET /foo\<close> without a version gets the body alone.
\<close>

theorem default_status_counterexample:
  "respond example_library [] (request_of ''GET /foo'')
     = Some \<lparr>status = None, headers = [], body = ''Supply Chain POC App''\<rparr>"
proof -
  obtain s where "accepted example_library [] (request_of ''GET /foo'') = Some s"
    and "command s = Some ''GET''" and "path s = ''/foo''"
    and "request_version s = ''HTTP/0.9''"
    using accepted_foo_09 by blast
  then show ?thesis by (simp add: respond_GET_other_simple)
qed

text \<open>
  Claim C2, amended. Every GET request that the base class accepts with a path other than
  \<^verbatim>\<open>/health\<close> (the path is the request target with a leading \<^verbatim>\<open>//\<close> reduced) is answered
  with the body \<^verbatim>\<open>Supply Chain POC App\<close>. When the request's version is not \<^verbatim>\<open>HTTP/0.9\<close>,
  the response has status 200 and the header \<^verbatim>\<open>Content-Type: text/plain\<close>; for a request
  of version 0.9 the body is all that is sent.
\<close>

theorem default_response:
  assumes "accepted lib err r = Some s" and "command s = Some ''GET''"
    and "path s \<noteq> ''/health''"
  shows "\<exists>resp. respond lib err r = Some resp
           \<and> body resp = ''Supply Chain POC App''
           \<and> (request_version s \<noteq> ''HTTP/0.9'' \<longrightarrow>
                status resp = Some 200 \<and> content_type resp = Some ''text/plain'')
           \<and> (request_version s = ''HTTP/0.9'' \<longrightarrow>
                status resp = None \<and> headers resp = [])"
proof (cases "request_version s = ''HTTP/0.9''")
  case True
  with assms show ?thesis by (simp add: respond_GET_other_simple)
next
  case False
  with assms show ?thesis by (simp add: respond_GET_other_head content_type_def)
qed

theorem default_response_witness:
  "(\<exists>s. accepted example_library [] (request_of ''GET /bar/baz HTTP/1.0'') = Some s
      \<and> command s = Some ''GET'' \<and> path s \<noteq> ''/health''
      \<and> request_version s \<noteq> ''HTTP/0.9''
      \<and> (\<exists>resp. respond example_library [] (request_of ''GET /bar/baz HTTP/1.0'') = Some resp
           \<and> body resp = ''Supply Chain POC App''
           \<and> status resp = Some 200 \<and> content_type resp = Some ''text/plain''))
   \<and> (\<exists>s. accepted example_library [] (request_of ''GET /foo'') = Some s
      \<and> command s = Some ''GET'' \<and> path s \<noteq> ''/health''
      \<and> request_version s = ''HTTP/0.9''
      \<and> (\<exists>resp. respond example_library [] (request_of ''GET /foo'') = Some resp
           \<and> body resp = ''Supply Chain POC App''
           \<and> status resp = None \<and> headers resp = []))"
proof -
  obtain s where s: "accepted example_library [] (request_of ''GET /bar/baz HTTP/1.0'') = Some s"
    "command s = Some ''GET''" "path s = ''/bar/baz''" "request_version s = ''HTTP/1.0''"
    using accepted_barbaz_10 by blast
  obtain u where u: "accepted example_library [] (request_of ''GET /foo'') = Some u"
    "command u = Some ''GET''" "path u = ''/foo''" "request_version u = ''HTTP/0.9''"
    using accepted_foo_09 by blast
  from s have "path s \<noteq> ''/health''" by simp
  from default_response [OF s(1) s(2) this] s
  have a: "\<exists>s. accepted example_library [] (request_of ''GET /bar/baz HTTP/1.0'') = Some s
      \<and> command s = Some ''GET'' \<and> path s \<noteq> ''/health''
      \<and> request_version s \<noteq> ''HTTP/0.9''
      \<and> (\<exists>resp. respond example_library [] (request_of ''GET /bar/baz HTTP/1.0'') = Some resp
           \<and> body resp = ''Supply Chain POC App''
           \<and> status resp = Some 200 \<and> content_type resp = Some ''text/plain'')"
    by auto
  from u have "path u \<noteq> ''/health''" by simp
  from default_response [OF u(1) u(2) this] u
  have b: "\<exists>s. accepted example_library [] (request_of ''GET /foo'') = Some s
      \<and> command s = Some ''GET'' \<and> path s \<noteq> ''/health''
      \<and> request_version s = ''HTTP/0.9''
      \<and> (\<exists>resp. respond example_library [] (request_of ''GET /foo'') = Some resp
           \<and> body resp = ''Supply Chain POC App''
           \<and> status resp = None \<and> headers resp = [])"
    by auto
  from a b show ?thesis by blast
qed

text \<open>
  Claim C10, as stated: the health branch requires the full request target to equal
  \<^verbatim>\<open>/health\<close>. The target \<^verbatim>\<open>//health\<close> differs from it and gets the JSON payload, because
  the base class reduces a leading \<^verbatim>\<open>//\<close> before \<^verbatim>\<open>do_GET\<close> compares the path.
\<close>

theorem health_target_counterexample:
  \<open>request_target (request_of ''GET //health HTTP/1.1'') = ''//health''
   \<and> respond example_library [] (request_of ''GET //health HTTP/1.1'')
       = Some \<lparr>status = Some 200,
                headers = [(''Server'', ''BaseHTTP/0.6 Python/3.11.10''), (''Date'', example_date),
                           (''Content-Type'', ''application/json'')],
                body = ''{"status": "ok"}''\<rparr>\<close>
proof -
  obtain s where s: "accepted example_library [] (request_of ''GET //health HTTP/1.1'') = Some s"
    "command s = Some ''GET''" "path s = ''/health''" "request_version s = ''HTTP/1.1''"
    using accepted_double_slash by blast
  then have "request_version s \<noteq> ''HTTP/0.9''" by simp
  from respond_GET_health_head [OF s(1) s(2) s(3) this]
  have \<open>respond example_library [] (request_of ''GET //health HTTP/1.1'')
       = Some \<lparr>status = Some 200,
                headers = [(''Server'', ''BaseHTTP/0.6 Python/3.11.10''), (''Date'', example_date),
                           (''Content-Type'', ''application/json'')],
                body = ''{"status": "ok"}''\<rparr>\<close>
    by (simp add: example_library_def req_date_request_of)
  with target_double_slash show ?thesis by simp
qed

text \<open>
  Claim C10, amended. For a GET request that the base class accepts, \<^verbatim>\<open>self.path\<close> is the
  request target with a leading \<^verbatim>\<open>//\<close> reduced to one slash, and the health branch is
  taken exactly when that path equals \<^verbatim>\<open>/health\<close> character for character: the JSON body
  is sent if and only if the target is one or more slashes followed by \<^verbatim>\<open>health\<close>. The
  targets \<^verbatim>\<open>/health?x=1\<close>, \<^verbatim>\<open>/health/\<close> and \<^verbatim>\<open>/Health\<close> get the plain-text default body,
  not the JSON payload (with status 200 and \<^verbatim>\<open>text/plain\<close> unless the request is of
  version 0.9).
\<close>

theorem health_dispatch_exact:
  assumes "accepted lib err r = Some s" and "command s = Some ''GET''"
  shows \<open>path s = reduce_slashes (request_target r)
         \<and> ((\<exists>resp. respond lib err r = Some resp \<and> body resp = ''{"status": "ok"}'')
              = (\<exists>n. request_target r = replicate (Suc n) CHR ''/'' @ ''health''))
         \<and> (request_target r \<in> {''/health?x=1'', ''/health/'', ''/Health''} \<longrightarrow>
              (\<exists>resp. respond lib err r = Some resp
                 \<and> body resp = ''Supply Chain POC App''
                 \<and> body resp \<noteq> ''{"status": "ok"}''
                 \<and> (request_version s \<noteq> ''HTTP/0.9'' \<longrightarrow>
                      status resp = Some 200 \<and> content_type resp = Some ''text/plain'')))\<close>
proof -
  have p: "path s = reduce_slashes (request_target r)"
    using assms(1) by (rule accepted_target)
  have h: "(path s = ''/health'') = (\<exists>n. request_target r = replicate (Suc n) CHR ''/'' @ ''health'')"
    unfolding p by (rule reduce_slashes_health)
  have v: "request_target r \<in> {''/health?x=1'', ''/health/'', ''/Health''} \<Longrightarrow>
      path s = request_target r \<and> path s \<noteq> ''/health''"
    unfolding p by (auto simp add: reduce_slashes_def startswith_def)
  show ?thesis
  proof (cases "path s = ''/health''")
    case True
    from True v have nv: "request_target r \<notin> {''/health?x=1'', ''/health/'', ''/Health''}"
      by blast
    from assms True have \<open>\<exists>resp. respond lib err r = Some resp \<and> body resp = ''{"status": "ok"}''\<close>
      by (cases "request_version s = ''HTTP/0.9''")
         (simp_all add: respond_GET_health_simple respond_GET_health_head)
    with p h True nv show ?thesis by simp
  next
    case False
    from assms False have
      "\<exists>resp. respond lib err r = Some resp \<and> body resp = ''Supply Chain POC App''
         \<and> (request_version s \<noteq> ''HTTP/0.9'' \<longrightarrow>
               status resp = Some 200 \<and> content_type resp = Some ''text/plain'')"
      by (cases "request_version s = ''HTTP/0.9''")
         (simp_all add: respond_GET_other_simple respond_GET_other_head content_type_def)
    with p h False show ?thesis by auto
  qed
qed

theorem health_dispatch_exact_witness:
  \<open>\<exists>s. accepted example_library [] (request_of ''GET /health?x=1 HTTP/1.1'') = Some s
     \<and> command s = Some ''GET''
     \<and> request_target (request_of ''GET /health?x=1 HTTP/1.1'')
          \<in> {''/health?x=1'', ''/health/'', ''/Health''}
     \<and> request_version s \<noteq> ''HTTP/0.9''
     \<and> path s = reduce_slashes (request_target (request_of ''GET /health?x=1 HTTP/1.1''))
     \<and> (\<exists>resp. respond example_library [] (request_of ''GET /health?x=1 HTTP/1.1'') = Some resp
          \<and> body resp = ''Supply Chain POC App''
          \<and> body resp \<noteq> ''{"status": "ok"}''
          \<and> status resp = Some 200 \<and> content_type resp = Some ''text/plain'')\<close>
proof -
  obtain s where s: "accepted example_library [] (request_of ''GET /health?x=1 HTTP/1.1'') = Some s"
    "command s = Some ''GET''" "path s = ''/health?x=1''" "request_version s = ''HTTP/1.1''"
    using accepted_query by blast
  from health_dispatch_exact [OF s(1) s(2)] s target_query show ?thesis by auto
qed

section \<open>Logging\<close>

lemma parse_words_stderr: "stderr (snd (parse_words log_message self words)) = stderr self"
proof (cases "2 \<le> length words \<and> length words \<le> 3")
  case False
  then show ?thesis by (simp add: parse_words_def send_error_stderr)
next
  case len: True
  show ?thesis
  proof (cases "length words = 2 \<and> words ! 0 \<noteq> ''GET''")
    case True
    with len show ?thesis by (simp add: parse_words_def Let_def send_error_stderr)
  next
    case False
    let ?s = "self\<lparr>command := Some (words ! 0), path := reduce_slashes (words ! 1)\<rparr>"
    show ?thesis
    proof (cases "read_headers 0 (rfile ?s)")
      case None
      with len False show ?thesis by (simp add: parse_words_def Let_def send_error_stderr)
    next
      case (Some e)
      with len False show ?thesis
        by (cases e) (simp_all add: parse_words_def Let_def send_error_stderr)
    qed
  qed
qed

lemma parse_request_stderr: "stderr (snd (parse_request log_message self)) = stderr self"
proof -
  let ?words = "str_split (rstrip_crlf (raw_requestline self))"
  show ?thesis
  proof (cases "length ?words = 0")
    case True
    then show ?thesis by (simp add: parse_request_def Let_def)
  next
    case False
    then show ?thesis
      by (cases "check_version ?words")
         (simp_all add: parse_request_def Let_def send_error_stderr parse_words_stderr)
  qed
qed

lemma handle_one_request_stderr: "stderr (handle_one_request self) = stderr self"
proof -
  obtain raw rest where rd: "readline 65537 (rfile self) = (raw, rest)"
    by (cases "readline 65537 (rfile self)")
  let ?s0 = "self\<lparr>raw_requestline := raw, rfile := rest\<rparr>"
  obtain ok s where pr: "parse_request log_message ?s0 = (ok, s)"
    by (cases "parse_request log_message ?s0")
  from parse_request_stderr [of ?s0] pr have s: "stderr s = stderr self" by simp
  consider "65536 < length raw" | "\<not> 65536 < length raw" "raw = []"
    | "\<not> 65536 < length raw" "raw \<noteq> []" "\<not> ok"
    | "\<not> 65536 < length raw" "raw \<noteq> []" "ok" "command s = None"
    | c where "\<not> 65536 < length raw" "raw \<noteq> []" "ok" "command s = Some c"
    by (cases "command s") auto
  then show ?thesis
  proof cases
    case 1
    with rd show ?thesis by (simp add: handle_one_request_def Let_def send_error_stderr)
  next
    case 2
    with rd show ?thesis by (simp add: handle_one_request_def Let_def)
  next
    case 3
    with rd pr s show ?thesis by (simp add: handle_one_request_def Let_def)
  next
    case 4
    with rd pr s show ?thesis by (simp add: handle_one_request_def Let_def)
  next
    case 5
    with rd pr s show ?thesis
      by (simp add: handle_one_request_def Let_def send_error_stderr do_GET_stderr)
  qed
qed

lemma serve_forever_stderr: "snd (serve_forever lib err rs) = err"
  by (induction rs arbitrary: err)
     (simp_all add: Let_def split_beta handle_one_request_stderr new_handler_def)

lemma serve_forever_length: "length (fst (serve_forever lib err rs)) = length rs"
  by (induction rs arbitrary: err) (simp_all add: Let_def split_beta)

lemma serve_forever_nth:
  "i < length rs \<Longrightarrow>
   fst (serve_forever lib err rs) ! i = wfile (handle_one_request (new_handler lib err (rs ! i)))"
proof (induction rs arbitrary: i err)
  case Nil
  then show ?case by simp
next
  case (Cons r rs)
  have keep: "stderr (handle_one_request (new_handler lib err r)) = err"
    by (simp add: handle_one_request_stderr new_handler_def)
  show ?case
  proof (cases i)
    case 0
    then show ?thesis by (simp add: Let_def split_beta)
  next
    case (Suc k)
    with Cons.prems have "k < length rs" by simp
    from Cons.IH [OF this, of err] Suc show ?thesis
      by (simp add: Let_def split_beta keep)
  qed
qed

text \<open>
  With the base class's own \<open>log_message\<close>, \<^verbatim>\<open>send_response\<close> would write a line to the
  error stream: the override is what silences it.
\<close>

lemma base_logging_writes:
  "stderr (send_response base_log_message self code) \<noteq> stderr self"
  by (simp add: send_response_def log_request_def send_response_only_def send_header_def
        base_log_message_def Let_def)

text \<open>
  Claim C9. The logging hook emits nothing: \<open>log_message\<close> returns the handler unchanged,
  so handling any request, whatever its request line, leaves the error stream as it
  was, and so does serving any sequence of requests.
\<close>

theorem logging_suppressed:
  "log_message self format args = self
   \<and> stderr (handle_one_request self) = stderr self
   \<and> snd (serve_forever lib err rs) = err"
  by (simp add: log_message_def handle_one_request_stderr serve_forever_stderr)

section \<open>Methods other than GET\<close>










section \<open>Independence of requests\<close>

text \<open>
  Claim C7, as stated: any two GET requests with the same path get identical status,
  content type and body. The request lines \<^verbatim>\<open>GET /health\<close> and \<^verbatim>\<open>GET /health HTTP/1.1\<close>
  are both accepted as GET with the path \<^verbatim>\<open>/health\<close>, one after the other on the same
  server; the first gets no status line, the second status 200.
\<close>

theorem same_path_counterexample:
  "map_option command (accepted example_library [] (request_of ''GET /health''))
     = Some (Some ''GET'')
   \<and> map_option command (accepted example_library [] (request_of ''GET /health HTTP/1.1''))
     = Some (Some ''GET'')
   \<and> map_option path (accepted example_library [] (request_of ''GET /health''))
     = Some ''/health''
   \<and> map_option path (accepted example_library [] (request_of ''GET /health HTTP/1.1''))
     = Some ''/health''
   \<and> map_option status (response_of (fst (serve_forever example_library []
        [request_of ''GET /health'', request_of ''GET /health HTTP/1.1'']) ! 0)) = Some None
   \<and> map_option status (response_of (fst (serve_forever example_library []
        [request_of ''GET /health'', request_of ''GET /health HTTP/1.1'']) ! 1)) = Some (Some 200)"
proof -
  obtain s where s: "accepted example_library [] (request_of ''GET /health'') = Some s"
    "command s = Some ''GET''" "path s = ''/health''" "request_version s = ''HTTP/0.9''"
    using accepted_health_09 by blast
  obtain u where u: "accepted example_library [] (request_of ''GET /health HTTP/1.1'') = Some u"
    "command u = Some ''GET''" "path u = ''/health''" "request_version u = ''HTTP/1.1''"
    using accepted_health_11 by blast
  from u have v: "request_version u \<noteq> ''HTTP/0.9''" by simp
  have a: "response_of (fst (serve_forever example_library []
        [request_of ''GET /health'', request_of ''GET /health HTTP/1.1'']) ! 0)
      = respond example_library [] (request_of ''GET /health'')"
    using serve_forever_nth [of 0 "[request_of ''GET /health'', request_of ''GET /health HTTP/1.1'']"
        example_library "[]"]
    by (simp add: respond_def del: serve_forever.simps)
  have b: "response_of (fst (serve_forever example_library []
        [request_of ''GET /health'', request_of ''GET /health HTTP/1.1'']) ! 1)
      = respond example_library [] (request_of ''GET /health HTTP/1.1'')"
    using serve_forever_nth [of 1 "[request_of ''GET /health'', request_of ''GET /health HTTP/1.1'']"
        example_library "[]"]
    by (simp add: respond_def del: serve_forever.simps)
  show ?thesis
    unfolding a b
    using s u respond_GET_health_simple [OF s] respond_GET_health_head [OF u(1) u(2) u(3) v]
    by simp
qed

lemma respond_GET_cases:
  assumes "accepted lib err r = Some s" and "command s = Some ''GET''"
  shows \<open>respond lib err r =
     Some \<lparr>status = (if request_version s = ''HTTP/0.9'' then None else Some 200),
           headers = (if request_version s = ''HTTP/0.9'' then []
                      else [(''Server'', lib_version_string lib), (''Date'', req_date r),
                            (''Content-Type'',
                             if path s = ''/health'' then ''application/json''
                             else ''text/plain'')]),
           body = (if path s = ''/health'' then ''{"status": "ok"}''
                   else ''Supply Chain POC App'')\<rparr>\<close>
proof (cases "path s = ''/health''")
  case True
  with assms show ?thesis
    by (cases "request_version s = ''HTTP/0.9''")
       (simp_all add: respond_GET_health_simple respond_GET_health_head)
next
  case False
  with assms show ?thesis
    by (cases "request_version s = ''HTTP/0.9''")
       (simp_all add: respond_GET_other_simple respond_GET_other_head)
qed

text \<open>
  Claim C7, amended. Handling is deterministic and independent of history: take any two
  request sequences served by the server, and in each a GET request that the base class
  accepts, at any position, with the same path. Both are answered and the bodies are
  equal; status and content type are equal as well when both requests are of version
  0.9 or neither is (the date header may differ). What is written for a request is what
  is written when the request is served alone: no state is carried from one request to
  the next.
\<close>

theorem history_independent:
  assumes "i < length rs1" and "j < length rs2"
    and "accepted lib err1 (rs1 ! i) = Some s1" and "accepted lib err2 (rs2 ! j) = Some s2"
    and "command s1 = Some ''GET''" and "command s2 = Some ''GET''"
    and "path s1 = path s2"
  shows "\<exists>a b. response_of (fst (serve_forever lib err1 rs1) ! i) = Some a
           \<and> response_of (fst (serve_forever lib err2 rs2) ! j) = Some b
           \<and> body a = body b
           \<and> ((request_version s1 = ''HTTP/0.9'') = (request_version s2 = ''HTTP/0.9'') \<longrightarrow>
                status a = status b \<and> content_type a = content_type b)
           \<and> fst (serve_forever lib err1 rs1) ! i = fst (serve_forever lib err1 [rs1 ! i]) ! 0"
proof -
  have a: "response_of (fst (serve_forever lib err1 rs1) ! i) = respond lib err1 (rs1 ! i)"
    using assms(1) by (simp add: serve_forever_nth respond_def)
  have b: "response_of (fst (serve_forever lib err2 rs2) ! j) = respond lib err2 (rs2 ! j)"
    using assms(2) by (simp add: serve_forever_nth respond_def)
  have c: "fst (serve_forever lib err1 rs1) ! i = fst (serve_forever lib err1 [rs1 ! i]) ! 0"
    using assms(1) serve_forever_nth [of 0 "[rs1 ! i]" lib err1]
    by (simp add: serve_forever_nth del: serve_forever.simps)
  show ?thesis
    unfolding a b respond_GET_cases [OF assms(3) assms(5)] respond_GET_cases [OF assms(4) assms(6)]
    using assms(7) c by (simp add: content_type_def)
qed

theorem history_independent_witness:
  "(1::nat) < length [request_of ''POST / HTTP/1.1'', request_of ''GET /health HTTP/1.1'']
   \<and> (0::nat) < length [request_of ''GET //health HTTP/1.1'']
   \<and> (\<exists>s1 s2.
        accepted example_library []
          ([request_of ''POST / HTTP/1.1'', request_of ''GET /health HTTP/1.1''] ! 1) = Some s1
      \<and> accepted example_library [] ([request_of ''GET //health HTTP/1.1''] ! 0) = Some s2
      \<and> command s1 = Some ''GET'' \<and> command s2 = Some ''GET'' \<and> path s1 = path s2
      \<and> (request_version s1 = ''HTTP/0.9'') = (request_version s2 = ''HTTP/0.9''))
   \<and> (\<exists>a b. response_of (fst (serve_forever example_library []
          [request_of ''POST / HTTP/1.1'', request_of ''GET /health HTTP/1.1'']) ! 1) = Some a
        \<and> response_of (fst (serve_forever example_library []
          [request_of ''GET //health HTTP/1.1'']) ! 0) = Some b
        \<and> body a = body b \<and> status a = status b \<and> content_type a = content_type b)"
proof -
  obtain s where s: "accepted example_library [] (request_of ''GET /health HTTP/1.1'') = Some s"
    "command s = Some ''GET''" "path s = ''/health''" "request_version s = ''HTTP/1.1''"
    using accepted_health_11 by blast
  obtain u where u: "accepted example_library [] (request_of ''GET //health HTTP/1.1'') = Some u"
    "command u = Some ''GET''" "path u = ''/health''" "request_version u = ''HTTP/1.1''"
    using accepted_double_slash by blast
  have "\<exists>a b. response_of (fst (serve_forever example_library []
          [request_of ''POST / HTTP/1.1'', request_of ''GET /health HTTP/1.1'']) ! 1) = Some a
        \<and> response_of (fst (serve_forever example_library []
          [request_of ''GET //health HTTP/1.1'']) ! 0) = Some b
        \<and> body a = body b \<and> status a = status b \<and> content_type a = content_type b"
    using history_independent [of 1
        "[request_of ''POST / HTTP/1.1'', request_of ''GET /health HTTP/1.1'']"
        0 "[request_of ''GET //health HTTP/1.1'']" example_library "[]" s "[]" u] s u
    by (auto simp del: serve_forever.simps)
  with s u show ?thesis by (auto simp del: serve_forever.simps)
qed

section \<open>Startup\<close>

lemma digits_value_chars:
  "digits_value acc cs = Some n \<Longrightarrow> c \<in> set cs \<Longrightarrow> is_digit c \<or> c = CHR ''_''"
  by (induction acc cs rule: digits_value.induct) (auto split: if_splits list.splits)

lemma unsigned_of_str_chars:
  assumes "unsigned_of_str u = Some n" and "c \<in> set u"
  shows "is_digit c \<or> c = CHR ''_''"
proof (cases u)
  case Nil
  with assms show ?thesis by simp
next
  case (Cons d ds)
  with assms(1) have d: "is_digit d"
    by (cases "is_digit d") (simp_all add: unsigned_of_str_def)
  with assms(1) Cons obtain m where "digits_value (digit_val d) ds = Some m"
    by (cases "digits_value (digit_val d) ds") (simp_all add: unsigned_of_str_def)
  from digits_value_chars [OF this] d assms(2) Cons show ?thesis by auto
qed

lemma unsigned_of_str_limit:
  assumes "max_str_digits < length (filter is_digit u)"
  shows "unsigned_of_str u = None"
proof (cases u)
  case Nil
  then show ?thesis by (simp add: unsigned_of_str_def)
next
  case (Cons d ds)
  show ?thesis
  proof (cases "is_digit d")
    case False
    with Cons show ?thesis by (simp add: unsigned_of_str_def)
  next
    case True
    with assms Cons show ?thesis
      by (cases "digits_value (digit_val d) ds") (simp_all add: unsigned_of_str_def)
  qed
qed

lemma strip_chars: "c \<in> set s \<Longrightarrow> py_isspace c \<or> c \<in> set (strip s)"
proof -
  assume c: "c \<in> set s"
  let ?t = "dropWhile py_isspace s"
  have s: "set s = set (takeWhile py_isspace s) \<union> set ?t"
    by (metis set_append takeWhile_dropWhile_id)
  have t: "set ?t = set (takeWhile py_isspace (rev ?t)) \<union> set (dropWhile py_isspace (rev ?t))"
    by (metis set_append set_rev takeWhile_dropWhile_id)
  from c s t show ?thesis
    by (auto simp add: strip_def dest: set_takeWhileD)
qed

lemma int_of_str_error: "int_of_str s = Inl e \<Longrightarrow> e = ValueError"
  unfolding int_of_str_def
  by (cases "strip s") (simp_all split: if_splits option.splits)

lemma int_of_str_cases:
  assumes "int_of_str s = Inr n"
  obtains u where "unsigned_of_str u \<noteq> None"
    and "strip s = u \<or> strip s = CHR ''-'' # u \<or> strip s = CHR ''+'' # u"
proof (cases "strip s")
  case Nil
  with assms show ?thesis by (simp add: int_of_str_def)
next
  case (Cons c cs)
  consider "c = CHR ''-''" | "c \<noteq> CHR ''-''" "c = CHR ''+''" | "c \<noteq> CHR ''-''" "c \<noteq> CHR ''+''"
    by blast
  then show ?thesis
  proof cases
    case 1
    with assms Cons have "unsigned_of_str cs \<noteq> None"
      by (simp add: int_of_str_def split: option.splits)
    with 1 Cons that show ?thesis by blast
  next
    case 2
    with assms Cons have "unsigned_of_str cs \<noteq> None"
      by (simp add: int_of_str_def split: option.splits)
    with 2 Cons that show ?thesis by blast
  next
    case 3
    with assms Cons have "unsigned_of_str (c # cs) \<noteq> None"
      by (simp add: int_of_str_def split: option.splits)
    with Cons that show ?thesis by blast
  qed
qed

lemma int_of_str_chars:
  assumes "int_of_str s = Inr n" and "c \<in> set s"
  shows "is_digit c \<or> py_isspace c \<or> c = CHR ''+'' \<or> c = CHR ''-'' \<or> c = CHR ''_''"
proof (cases "py_isspace c")
  case True
  then show ?thesis by simp
next
  case False
  with strip_chars [OF assms(2)] have c: "c \<in> set (strip s)" by simp
  from assms(1) obtain u where u: "unsigned_of_str u \<noteq> None"
    and s: "strip s = u \<or> strip s = CHR ''-'' # u \<or> strip s = CHR ''+'' # u"
    by (rule int_of_str_cases)
  from u obtain m where m: "unsigned_of_str u = Some m" by blast
  from c s have "c \<in> set u \<or> c = CHR ''-'' \<or> c = CHR ''+''" by auto
  with unsigned_of_str_chars [OF m] show ?thesis by blast
qed

lemma int_of_str_rejects:
  assumes "c \<in> set s"
    and "\<not> (is_digit c \<or> py_isspace c \<or> c = CHR ''+'' \<or> c = CHR ''-'' \<or> c = CHR ''_'')"
  shows "int_of_str s = Inl ValueError"
proof (cases "int_of_str s")
  case (Inl e)
  then show ?thesis using int_of_str_error by blast
next
  case (Inr n)
  from int_of_str_chars [OF Inr assms(1)] assms(2) show ?thesis by blast
qed

lemmas int_of_str_eval = int_of_str_def strip_def py_isspace_def is_digit_def digit_val_def
  unsigned_of_str_def max_str_digits_def

text \<open>
  Two inputs that \<^verbatim>\<open>int\<close> rejects although they hold digits and nothing a reader would
  call text: a separator control character is not whitespace for \<^verbatim>\<open>int\<close>, and a run of
  4301 zeros is over the limit.
\<close>

lemma int_of_str_separator: "int_of_str [CHR 0x1C, CHR ''7''] = Inl ValueError"
  by (simp add: int_of_str_eval)

lemma is_digit_not_space: "py_isspace c \<Longrightarrow> \<not> is_digit c"
  by (auto simp add: py_isspace_def is_digit_def Let_def)

lemma filter_digit_dropWhile: "filter is_digit (dropWhile py_isspace xs) = filter is_digit xs"
  by (induction xs) (auto dest: is_digit_not_space)

lemma filter_digit_strip: "filter is_digit (strip s) = filter is_digit s"
proof -
  let ?t = "dropWhile py_isspace s"
  have "filter is_digit (strip s) = rev (filter is_digit (dropWhile py_isspace (rev ?t)))"
    by (simp add: strip_def rev_filter)
  also have "\<dots> = rev (filter is_digit (rev ?t))"
    by (simp only: filter_digit_dropWhile)
  also have "\<dots> = filter is_digit ?t"
    by (simp add: rev_filter [symmetric])
  finally show ?thesis by (simp only: filter_digit_dropWhile)
qed

lemma int_of_str_limit:
  assumes "max_str_digits < length (filter is_digit s)"
  shows "int_of_str s = Inl ValueError"
proof (cases "int_of_str s")
  case (Inl e)
  then show ?thesis using int_of_str_error by blast
next
  case (Inr n)
  then obtain u where u: "unsigned_of_str u \<noteq> None"
    and s: "strip s = u \<or> strip s = CHR ''-'' # u \<or> strip s = CHR ''+'' # u"
    by (rule int_of_str_cases)
  have "\<not> is_digit CHR ''-''" and "\<not> is_digit CHR ''+''" by (simp_all add: is_digit_def)
  with s have "filter is_digit (strip s) = filter is_digit u" by auto
  with assms have "max_str_digits < length (filter is_digit u)" by (simp add: filter_digit_strip)
  from unsigned_of_str_limit [OF this] u show ?thesis by simp
qed

lemma int_of_str_over_limit: "int_of_str (replicate 4301 CHR ''0'') = Inl ValueError"
  by (rule int_of_str_limit) (simp add: max_str_digits_def is_digit_def)

lemma int_of_str_9090: "int_of_str ''9090'' = Inr 9090"
  by (simp add: int_of_str_eval)

lemma int_of_str_70000: "int_of_str ''70000'' = Inr 70000"
  by (simp add: int_of_str_eval)

lemma int_of_str_0: "int_of_str ''0'' = Inr 0"
  by (simp add: int_of_str_eval)

lemma str_int_8080: "str_int 8080 = ''8080''"
  by (simp add: str_int_def str_nat.simps digit_char_def)

lemma str_int_9090: "str_int 9090 = ''9090''"
  by (simp add: str_int_def str_nat.simps digit_char_def)

lemma str_int_0: "str_int 0 = ''0''"
  by (simp add: str_int_def str_nat.simps digit_char_def)

lemma port_unset: "env ''PORT'' = None \<Longrightarrow> port env = Inr 8080"
  by (simp add: port_def environ_get_def)

lemma port_set: "env ''PORT'' = Some s \<Longrightarrow> port env = int_of_str s"
  by (simp add: port_def environ_get_def)

lemma port_error: "port env = Inl e \<Longrightarrow> e = ValueError"
  by (cases "env ''PORT''") (auto simp add: port_unset port_set dest: int_of_str_error)

lemma main_port:
  "port env = Inr p \<Longrightarrow> main env bind_ok eph =
     (if p < 0 \<or> 65535 < p then Inl OverflowError
      else if bind_ok (''0.0.0.0'', p)
        then Inr (\<lparr>server_address = (''0.0.0.0'', if p = 0 then eph else p)\<rparr>,
                  [''Server running on port '' @ str_int p])
      else Inl OSError)"
  by (simp add: main_def HTTPServer_def getsockname_def)

lemma main_port_error: "port env = Inl e \<Longrightarrow> main env bind_ok eph = Inl e"
  by (simp add: main_def)

text \<open>
  Claim C3, as the specification states it: with \<^verbatim>\<open>PORT\<close> set to a non-numeric string,
  startup computes port 8080 and binds it. With \<^verbatim>\<open>PORT=abc\<close>, \<^verbatim>\<open>int\<close> raises
  \<^verbatim>\<open>ValueError\<close>: no port is computed and no server is created, even when every bind
  would succeed.
\<close>

theorem port_fallback_counterexample:
  "port [''PORT'' \<mapsto> ''abc''] = Inl ValueError
   \<and> port [''PORT'' \<mapsto> ''abc''] \<noteq> Inr 8080
   \<and> main [''PORT'' \<mapsto> ''abc''] any_bind_ok 49152 = Inl ValueError"
  by (simp add: main_def port_def environ_get_def int_of_str_eval)

text \<open>
  Claim C3, amended. With \<^verbatim>\<open>PORT\<close> unset, startup computes port 8080 and creates the
  listener on (0.0.0.0, 8080), which is the only address it asks the operating system
  for. With \<^verbatim>\<open>PORT\<close> set to a string that holds any character other than a decimal
  digit, whitespace, a sign or an underscore, \<^verbatim>\<open>int\<close> raises \<^verbatim>\<open>ValueError\<close> and startup
  ends with that exception: there is no fallback to 8080.
\<close>

theorem port_default:
  "(env ''PORT'' = None \<longrightarrow>
      port env = Inr 8080
      \<and> main env bind_ok eph =
          (if bind_ok (''0.0.0.0'', 8080)
           then Inr (\<lparr>server_address = (''0.0.0.0'', 8080)\<rparr>, [''Server running on port 8080''])
           else Inl OSError))
   \<and> (env ''PORT'' = Some s \<and> c \<in> set s
        \<and> \<not> (is_digit c \<or> py_isspace c \<or> c = CHR ''+'' \<or> c = CHR ''-'' \<or> c = CHR ''_'') \<longrightarrow>
      port env = Inl ValueError \<and> main env bind_ok eph = Inl ValueError)"
proof (intro conjI impI)
  assume "env ''PORT'' = None"
  then show "port env = Inr 8080" by (rule port_unset)
next
  assume "env ''PORT'' = None"
  then show "main env bind_ok eph =
      (if bind_ok (''0.0.0.0'', 8080)
       then Inr (\<lparr>server_address = (''0.0.0.0'', 8080)\<rparr>, [''Server running on port 8080''])
       else Inl OSError)"
    by (simp add: main_port [OF port_unset] str_int_8080)
next
  assume h: "env ''PORT'' = Some s \<and> c \<in> set s
        \<and> \<not> (is_digit c \<or> py_isspace c \<or> c = CHR ''+'' \<or> c = CHR ''-'' \<or> c = CHR ''_'')"
  then have "int_of_str s = Inl ValueError" using int_of_str_rejects by blast
  with h show "port env = Inl ValueError" by (simp add: port_set)
  then show "main env bind_ok eph = Inl ValueError" by (rule main_port_error)
qed

theorem port_default_witness:
  "(Map.empty :: environ) ''PORT'' = None
   \<and> port Map.empty = Inr 8080
   \<and> main Map.empty any_bind_ok 49152 =
        Inr (\<lparr>server_address = (''0.0.0.0'', 8080)\<rparr>, [''Server running on port 8080''])
   \<and> [''PORT'' \<mapsto> ''80a''] ''PORT'' = Some ''80a''
   \<and> CHR ''a'' \<in> set ''80a''
   \<and> \<not> (is_digit CHR ''a'' \<or> py_isspace CHR ''a'' \<or> CHR ''a'' = CHR ''+''
         \<or> CHR ''a'' = CHR ''-'' \<or> CHR ''a'' = CHR ''_'')
   \<and> port [''PORT'' \<mapsto> ''80a''] = Inl ValueError
   \<and> main [''PORT'' \<mapsto> ''80a''] any_bind_ok 49152 = Inl ValueError"
  using port_default [of Map.empty any_bind_ok 49152 "''80a''" "CHR ''a''"]
    port_default [of "[''PORT'' \<mapsto> ''80a'']" any_bind_ok 49152 "''80a''" "CHR ''a''"]
  by (simp add: any_bind_ok_def is_digit_def py_isspace_def)

text \<open>
  Claim C6. With \<^verbatim>\<open>PORT\<close> set to \<^verbatim>\<open>9090\<close>, startup computes port 9090, not 8080, and
  creates the listener on (0.0.0.0, 9090): that is the one address it asks the operating
  system for, and the server it returns when the bind is accepted listens there.
\<close>

theorem port_from_environment:
  assumes "env ''PORT'' = Some ''9090''"
  shows "port env = Inr 9090 \<and> port env \<noteq> Inr 8080
    \<and> main env bind_ok eph =
        (if bind_ok (''0.0.0.0'', 9090)
         then Inr (\<lparr>server_address = (''0.0.0.0'', 9090)\<rparr>, [''Server running on port 9090''])
         else Inl OSError)"
proof -
  from assms have p: "port env = Inr 9090" by (simp add: port_set int_of_str_9090)
  then show ?thesis by (simp add: main_port [OF p] str_int_9090)
qed

theorem port_from_environment_witness:
  "[''PORT'' \<mapsto> ''9090''] ''PORT'' = Some ''9090''
   \<and> port [''PORT'' \<mapsto> ''9090''] = Inr 9090
   \<and> main [''PORT'' \<mapsto> ''9090''] any_bind_ok 49152 =
        Inr (\<lparr>server_address = (''0.0.0.0'', 9090)\<rparr>, [''Server running on port 9090''])"
  using port_from_environment [of "[''PORT'' \<mapsto> ''9090'']" any_bind_ok 49152]
  by (simp add: any_bind_ok_def)

text \<open>
  Claim C8, as the specification states it: a bind failure is fatal, and it is the only
  failure class. With \<^verbatim>\<open>PORT=8080/tcp\<close> startup fails with exit status 1 on an operating
  system that accepts every bind, port 8080 included: the failure is the \<^verbatim>\<open>ValueError\<close> of
  \<^verbatim>\<open>int\<close>, raised before any bind.
\<close>

theorem only_failure_class_counterexample:
  "main [''PORT'' \<mapsto> ''8080/tcp''] any_bind_ok 49152 = Inl ValueError
   \<and> exit_status (main [''PORT'' \<mapsto> ''8080/tcp''] any_bind_ok 49152) = Some 1
   \<and> HTTPServer any_bind_ok 49152 (''0.0.0.0'', 8080)
       = Inr \<lparr>server_address = (''0.0.0.0'', 8080)\<rparr>"
  by (simp add: main_def port_def environ_get_def int_of_str_eval HTTPServer_def
        getsockname_def any_bind_ok_def)

text \<open>
  Claim C8, amended. If the chosen port is outside 0..65535 or the operating system
  refuses the bind, the \<^verbatim>\<open>__main__\<close> block ends with an uncaught exception
  (\<^verbatim>\<open>OverflowError\<close>, \<^verbatim>\<open>OSError\<close>) and exit status 1; nothing catches it. It is not the only
  failure of the block: a \<^verbatim>\<open>PORT\<close> value that \<^verbatim>\<open>int\<close> rejects ends it with \<^verbatim>\<open>ValueError\<close>
  and exit status 1 as well. In every other case the server is created and the process
  does not exit; the listener is on the chosen port, and for port 0 on the port the
  operating system picks.
\<close>

theorem startup_failure_fatal:
  "(port env = Inr p \<and> (p < 0 \<or> 65535 < p \<or> \<not> bind_ok (''0.0.0.0'', p)) \<longrightarrow>
      main env bind_ok eph = Inl (if p < 0 \<or> 65535 < p then OverflowError else OSError)
      \<and> exit_status (main env bind_ok eph) = Some 1)
   \<and> (port env = Inl e \<longrightarrow>
        e = ValueError \<and> main env bind_ok eph = Inl ValueError
        \<and> exit_status (main env bind_ok eph) = Some 1)
   \<and> (port env = Inr p \<and> 0 \<le> p \<and> p \<le> 65535 \<and> bind_ok (''0.0.0.0'', p) \<longrightarrow>
        main env bind_ok eph =
          Inr (\<lparr>server_address = (''0.0.0.0'', if p = 0 then eph else p)\<rparr>,
               [''Server running on port '' @ str_int p])
        \<and> exit_status (main env bind_ok eph) = None)"
proof (intro conjI impI)
  assume h: "port env = Inr p \<and> (p < 0 \<or> 65535 < p \<or> \<not> bind_ok (''0.0.0.0'', p))"
  then have p: "port env = Inr p" by simp
  from h show m: "main env bind_ok eph = Inl (if p < 0 \<or> 65535 < p then OverflowError else OSError)"
    by (auto simp add: main_port [OF p])
  show "exit_status (main env bind_ok eph) = Some 1" by (simp add: m)
next
  assume e: "port env = Inl e"
  then show v: "e = ValueError" by (rule port_error)
  from e v show m: "main env bind_ok eph = Inl ValueError" by (simp add: main_port_error)
  show "exit_status (main env bind_ok eph) = Some 1" by (simp add: m)
next
  assume h: "port env = Inr p \<and> 0 \<le> p \<and> p \<le> 65535 \<and> bind_ok (''0.0.0.0'', p)"
  then have p: "port env = Inr p" by simp
  from h show m: "main env bind_ok eph =
      Inr (\<lparr>server_address = (''0.0.0.0'', if p = 0 then eph else p)\<rparr>,
           [''Server running on port '' @ str_int p])"
    by (simp add: main_port [OF p])
  show "exit_status (main env bind_ok eph) = None" by (simp add: m)
qed

theorem startup_failure_fatal_witness:
  "port Map.empty = Inr 8080 \<and> \<not> free_except 8080 (''0.0.0.0'', 8080)
   \<and> main Map.empty (free_except 8080) 49152 = Inl OSError
   \<and> exit_status (main Map.empty (free_except 8080) 49152) = Some 1
   \<and> port [''PORT'' \<mapsto> ''70000''] = Inr 70000 \<and> (65535::int) < 70000
   \<and> main [''PORT'' \<mapsto> ''70000''] any_bind_ok 49152 = Inl OverflowError
   \<and> exit_status (main [''PORT'' \<mapsto> ''70000''] any_bind_ok 49152) = Some 1
   \<and> port [''PORT'' \<mapsto> ''http''] = Inl ValueError
   \<and> main [''PORT'' \<mapsto> ''http''] any_bind_ok 49152 = Inl ValueError
   \<and> exit_status (main [''PORT'' \<mapsto> ''http''] any_bind_ok 49152) = Some 1
   \<and> port [''PORT'' \<mapsto> ''0''] = Inr 0 \<and> any_bind_ok (''0.0.0.0'', 0)
   \<and> main [''PORT'' \<mapsto> ''0''] any_bind_ok 49152 =
        Inr (\<lparr>server_address = (''0.0.0.0'', 49152)\<rparr>, [''Server running on port 0''])
   \<and> exit_status (main [''PORT'' \<mapsto> ''0''] any_bind_ok 49152) = None"
proof -
  have a: "port Map.empty = Inr 8080" by (simp add: port_unset)
  have b: "port [''PORT'' \<mapsto> ''70000''] = Inr 70000" by (simp add: port_set int_of_str_70000)
  have c: "port [''PORT'' \<mapsto> ''http''] = Inl ValueError"
    by (simp add: port_set int_of_str_eval)
  have d: "port [''PORT'' \<mapsto> ''0''] = Inr 0" by (simp add: port_set int_of_str_0)
  show ?thesis
    using startup_failure_fatal [of Map.empty 8080 "free_except 8080" 49152 ValueError]
      startup_failure_fatal [of "[''PORT'' \<mapsto> ''70000'']" 70000 any_bind_ok 49152 ValueError]
      startup_failure_fatal [of "[''PORT'' \<mapsto> ''http'']" 0 any_bind_ok 49152 ValueError]
      startup_failure_fatal [of "[''PORT'' \<mapsto> ''0'']" 0 any_bind_ok 49152 ValueError]
    by (simp add: a b c d free_except_def any_bind_ok_def str_int_0)
qed

text \<open>
  Claim C4 says that the four imports carry no runtime behaviour: startup succeeds as it
  would without them. The third import is \<^verbatim>\<open>import pyyaml\<close>, and the comment on that line
  says that the package is imported as \<^verbatim>\<open>yaml\<close>. In an environment where the four
  packages are installed under their module names (\<^verbatim>\<open>flask\<close>, \<^verbatim>\<open>requests\<close>, \<^verbatim>\<open>yaml\<close>,
  \<^verbatim>\<open>cryptography\<close>), the module ends at that line with \<^verbatim>\<open>ModuleNotFoundError\<close> and exit
  status 1, where the \<^verbatim>\<open>__main__\<close> block alone would have started the server on 8080.
\<close>

theorem decorative_import_fails:
  "run_module [''flask'', ''requests'', ''yaml'', ''cryptography''] Map.empty any_bind_ok 49152
     = Inl (ModuleNotFoundError ''pyyaml'')
   \<and> exit_status (run_module [''flask'', ''requests'', ''yaml'', ''cryptography'']
        Map.empty any_bind_ok 49152) = Some 1
   \<and> main Map.empty any_bind_ok 49152 =
        Inr (\<lparr>server_address = (''0.0.0.0'', 8080)\<rparr>, [''Server running on port 8080''])"
  by (simp add: run_module_def module_imports_def main_port [OF port_unset] str_int_8080
        any_bind_ok_def)

end
